theory Spec2Isabelle
  imports Complex_Main
begin

section \<open>The fish actor of the fishing simulation (src/scene/fish.ts)\<close>

text \<open>
  The theory embeds the module \<^verbatim>\<open>src/scene/fish.ts\<close> and the driver loop of
  \<^verbatim>\<open>src/main.ts\<close>. The module keeps its data in module-level variables; here they are
  the fields of one record, passed in and returned by every function. JavaScript numbers
  are modelled as real numbers (no NaN and no infinities) and arithmetic is exact, with
  one exception. Where the module compares a computed number with a threshold, in the
  catch check of a frame, the arithmetic that leads to the number (the forward move of
  the frame and the distance) is the platform's and the library's own, taken as it is
  returned: nothing is assumed about how it rounds.
\<close>

subsection \<open>Vectors of the scene graph library\<close>

text \<open>
  A \<^verbatim>\<open>Vector3\<close> value: the three coordinates \<^verbatim>\<open>x\<close>, \<^verbatim>\<open>y\<close>, \<^verbatim>\<open>z\<close>.
\<close>

datatype Vector3 = Vector3 (vec_x: real) (vec_y: real) (vec_z: real)

definition subVectors :: "Vector3 \<Rightarrow> Vector3 \<Rightarrow> Vector3" where
  "subVectors a b = Vector3 (vec_x a - vec_x b) (vec_y a - vec_y b) (vec_z a - vec_z b)"

definition multiplyScalar :: "Vector3 \<Rightarrow> real \<Rightarrow> Vector3" where
  "multiplyScalar v s = Vector3 (vec_x v * s) (vec_y v * s) (vec_z v * s)"

definition addScaledVector :: "Vector3 \<Rightarrow> Vector3 \<Rightarrow> real \<Rightarrow> Vector3" where
  "addScaledVector p v s =
     Vector3 (vec_x p + vec_x v * s) (vec_y p + vec_y v * s) (vec_z p + vec_z v * s)"

definition lengthSq :: "Vector3 \<Rightarrow> real" where
  "lengthSq v = vec_x v * vec_x v + vec_y v * vec_y v + vec_z v * vec_z v"

definition vec_length :: "Vector3 \<Rightarrow> real" where
  "vec_length v = sqrt (lengthSq v)"

text \<open>
  \<^verbatim>\<open>normalize()\<close> divides by the length, or by 1 when the length is 0
  (\<^verbatim>\<open>divideScalar(this.length() || 1)\<close>).
\<close>

definition normalize_vec :: "Vector3 \<Rightarrow> Vector3" where
  "normalize_vec v =
     (let l = (if vec_length v = 0 then 1 else vec_length v)
      in Vector3 (vec_x v / l) (vec_y v / l) (vec_z v / l))"

definition distanceToSquared :: "Vector3 \<Rightarrow> Vector3 \<Rightarrow> real" where
  "distanceToSquared a b = lengthSq (subVectors a b)"

definition distanceTo :: "Vector3 \<Rightarrow> Vector3 \<Rightarrow> real" where
  "distanceTo a b = sqrt (distanceToSquared a b)"

text \<open>\<^verbatim>\<open>degToRad\<close> of the library's math utilities: degrees times \<open>\<pi> / 180\<close>.\<close>

definition degToRad :: "real \<Rightarrow> real" where
  "degToRad degrees = degrees * (pi / 180)"

text \<open>
  \<^verbatim>\<open>Math.atan2(y, x)\<close>: the angle of the point \<open>(x, y)\<close>, in \<open>(-\<pi>, \<pi>]\<close>, and 0 at
  the origin.
\<close>

definition atan2 :: "real \<Rightarrow> real \<Rightarrow> real" where
  "atan2 b a =
     (if 0 < a then arctan (b / a)
      else if a < 0 \<and> 0 \<le> b then arctan (b / a) + pi
      else if a < 0 \<and> b < 0 then arctan (b / a) - pi
      else if 0 < b then pi / 2
      else if b < 0 then - (pi / 2)
      else 0)"

subsection \<open>The fish object: position, rotation and scale\<close>

text \<open>
  The rotation of the fish is kept as the last call that set it, with that call's
  arguments: the module sets it with \<^verbatim>\<open>setRotationFromEuler\<close>,
  \<^verbatim>\<open>setRotationFromAxisAngle\<close> and \<^verbatim>\<open>lookAt\<close> and never changes it otherwise.
  \<open>LookAt eye target\<close> records the position the object had when \<^verbatim>\<open>lookAt(target)\<close>
  ran.
\<close>

datatype Rotation =
    Unrotated
  | FromEuler real real real
  | FromAxisAngle Vector3 real
  | LookAt Vector3 Vector3

record Object3D =
  position :: Vector3
  rotation :: Rotation
  scale :: Vector3

text \<open>
  The local z axis under a rotation, as the library computes it in exact arithmetic.
  For an axis and an angle it is the third column of the matrix of the quaternion
  \<open>(axis * sin (angle / 2), cos (angle / 2))\<close>; for Euler angles (order XYZ) the third
  column of the Euler matrix; for \<^verbatim>\<open>lookAt\<close> on an object that is neither camera nor
  light the normalised vector from the object to the target, which is replaced by
  \<open>(0, 0, 1)\<close> when the two coincide and is nudged by 0.0001 along z when it is
  parallel to the up vector \<open>(0, 1, 0)\<close>.
\<close>

fun zAxis :: "Rotation \<Rightarrow> Vector3" where
  "zAxis Unrotated = Vector3 0 0 1"
| "zAxis (FromEuler ex ey ez) = Vector3 (sin ey) (- (sin ex * cos ey)) (cos ex * cos ey)"
| "zAxis (FromAxisAngle axis angle) =
     (let s = sin (angle / 2);
          qx = vec_x axis * s; qy = vec_y axis * s; qz = vec_z axis * s;
          qw = cos (angle / 2)
      in Vector3 (2 * (qx * qz + qw * qy)) (2 * (qy * qz - qw * qx))
           (1 - 2 * (qx * qx + qy * qy)))"
| "zAxis (LookAt eye target) =
     (let d = subVectors target eye;
          d1 = (if lengthSq d = 0 then Vector3 (vec_x d) (vec_y d) 1 else d);
          n = normalize_vec d1
      in if vec_x n = 0 \<and> vec_z n = 0
         then normalize_vec (Vector3 (vec_x n) (vec_y n) (vec_z n + 1 / 10000))
         else n)"

text \<open>
  \<^verbatim>\<open>getWorldDirection\<close>: the z axis of the world matrix, normalised. The fish is a child
  of the root scene, which carries no transform of its own, so the world matrix is the
  fish's own: rotation times scale.
\<close>

definition getWorldDirection :: "Object3D \<Rightarrow> Vector3" where
  "getWorldDirection obj = normalize_vec (multiplyScalar (zAxis (rotation obj)) (vec_z (scale obj)))"

subsection \<open>State container, events, timers, animation\<close>

datatype FishStates = IDLE | SWIMMING | BEING_REELED | FLOPPING

text \<open>The per-frame callbacks the module installs in its state container.\<close>

datatype tick_callback = Tick_while_SWIMMING | Tick_while_BEING_REELED | Tick_while_FLOPPING

text \<open>
  Modelled from the spec: the class \<^verbatim>\<open>State\<close> of \<^verbatim>\<open>src/core/state\<close> is not among the
  sources. Section 4.2 of the specification: \<^verbatim>\<open>set(tag, onTick)\<close> replaces both the tag
  and the callback, \<^verbatim>\<open>get()\<close> returns the current tag, \<^verbatim>\<open>update()\<close> invokes the
  current callback if it is not null and does nothing otherwise.
\<close>

record ('t, 'c) State =
  currentStateTag :: 't
  onTick :: "'c option"

text \<open>Modelled from the spec: the constructor \<^verbatim>\<open>new State(tag, onTick)\<close>.\<close>

definition State_new :: "'t \<Rightarrow> 'c option \<Rightarrow> ('t, 'c) State" where
  "State_new t cb = \<lparr>currentStateTag = t, onTick = cb\<rparr>"

text \<open>Modelled from the spec: \<^verbatim>\<open>set(tag, onTick)\<close> replaces both the tag and the
  callback.\<close>

definition State_set :: "'t \<Rightarrow> 'c option \<Rightarrow> ('t, 'c) State \<Rightarrow> ('t, 'c) State" where
  "State_set t cb st = st\<lparr>currentStateTag := t, onTick := cb\<rparr>"

text \<open>Modelled from the spec: \<^verbatim>\<open>get()\<close> returns the current tag.\<close>

definition State_get :: "('t, 'c) State \<Rightarrow> 't" where
  "State_get st = currentStateTag st"

text \<open>The events of \<^verbatim>\<open>src/events/event_manager\<close> that the module imports.\<close>

datatype event = RESET | ON_FISH_FIGHT | ON_FISHERMAN_FIGHT | ON_FISH_CAUGHT

text \<open>
  The value of the variable \<^verbatim>\<open>changeSwimDirectionCallback\<close>: initially the empty
  function, later one of the two direction setters.
\<close>

datatype swim_callback = Do_nothing | Away_from_fisherman | Toward_fisherman

text \<open>
  The closures the module hands to \<^verbatim>\<open>setTimeout\<close>: the one of
  \<^verbatim>\<open>changeSwimDirections\<close>, and the one of \<^verbatim>\<open>flopRandomly\<close> with the speed and the
  number of flops it captured.
\<close>

datatype timeout_callback = Swim_direction_timeout | Flop_timeout real int

record timeout =
  timeout_id :: nat
  callback :: timeout_callback
  delay_ms :: int

text \<open>
  The flop animation action, as far as the module drives it: whether the mixer has it
  scheduled (\<^verbatim>\<open>play\<close> and \<^verbatim>\<open>stop\<close>), whether it is enabled (\<^verbatim>\<open>reset\<close> enables
  it, the mixer disables it when its repetitions are done), and the repetitions asked
  for (none stands for the library's default, infinitely many).
\<close>

record AnimationAction =
  scheduled :: bool
  enabled :: bool
  repetitions :: "int option"

text \<open>
  References to \<^verbatim>\<open>Vector3\<close> objects: the position and the scale objects that the fish
  owns, and the objects allocated since, by number.
\<close>

datatype vector_ref = Fish_position | Fish_scale | Allocated nat

text \<open>
  The variables of the module, the pending timers of the platform, the vectors
  allocated so far, and the events the module has transmitted, oldest first.
\<close>

record world =
  fish :: Object3D
  state :: "(FishStates, tick_callback) State"
  flopAnimationAction :: AnimationAction
  flopPlaybackSpeed :: real
  flopTimeoutId :: "nat option"
  swimDirectionChangeTimeoutId :: "nat option"
  changeSwimDirectionCallback :: swim_callback
  timeouts :: "timeout list"
  nextTimeoutId :: nat
  allocated :: "nat \<Rightarrow> Vector3"
  nextVector :: nat
  transmitted :: "event list"

text \<open>
  What a step of the module reads from outside: the frame time \<^verbatim>\<open>delta\<close> of
  \<^verbatim>\<open>src/core/time\<close>, the positions returned by \<^verbatim>\<open>getFishermanPosition()\<close> and
  \<^verbatim>\<open>getBobberPosition()\<close>, the uniform samples in \<open>[0, 1)\<close> behind the calls of the
  random helpers (\<open>random_sample e k\<close> for the \<open>k\<close>-th call of the step), and whether the
  animation mixer finds the repetitions of the running action completed during this
  step's \<^verbatim>\<open>animationMixer.update\<close> (the library decides it from the clip's duration).

  The last four fields are the number arithmetic on the path of the catch, as the
  platform and the library carry it out in IEEE double precision: \<open>js_times e a b\<close> is
  the value of the JavaScript product \<^verbatim>\<open>a * b\<close>, and \<open>lib_getWorldDirection e\<close>,
  \<open>lib_addScaledVector e\<close> and \<open>lib_distanceTo e\<close> are what the library's
  \<^verbatim>\<open>getWorldDirection\<close>, \<^verbatim>\<open>addScaledVector\<close> and \<^verbatim>\<open>distanceTo\<close> return. The functions
  \<open>getWorldDirection\<close>, \<open>addScaledVector\<close> and \<open>distanceTo\<close> defined above are their
  values in exact arithmetic; the library's results are those values rounded, and the
  model does not fix the rounding.
\<close>

record env =
  delta :: real
  fishermanPosition :: Vector3
  bobberPosition :: Vector3
  random_sample :: "nat \<Rightarrow> real"
  mixer_finished :: bool
  js_times :: "real \<Rightarrow> real \<Rightarrow> real"
  lib_getWorldDirection :: "Object3D \<Rightarrow> Vector3"
  lib_addScaledVector :: "Vector3 \<Rightarrow> Vector3 \<Rightarrow> real \<Rightarrow> Vector3"
  lib_distanceTo :: "Vector3 \<Rightarrow> Vector3 \<Rightarrow> real"

text \<open>
  The module as loaded: the initialisers of its variables, before any event. The fish
  object starts with the library's default transform (at the origin, not rotated, scale
  1); the reset that the driver transmits at startup replaces all three.
\<close>

definition initial_world :: world where
  "initial_world =
     \<lparr>fish = \<lparr>position = Vector3 0 0 0, rotation = Unrotated, scale = Vector3 1 1 1\<rparr>,
      state = State_new IDLE None,
      flopAnimationAction = \<lparr>scheduled = False, enabled = True, repetitions = None\<rparr>,
      flopPlaybackSpeed = 5 / 2,
      flopTimeoutId = None,
      swimDirectionChangeTimeoutId = None,
      changeSwimDirectionCallback = Do_nothing,
      timeouts = [],
      nextTimeoutId = 0,
      allocated = (\<lambda>_. Vector3 0 0 0),
      nextVector = 0,
      transmitted = []\<rparr>"

subsection \<open>Helpers of the repository that the module imports\<close>

text \<open>
  Modelled from the spec: \<^verbatim>\<open>getRandomFloat\<close> of \<^verbatim>\<open>src/util/random\<close> is not among
  the sources. The specification calls its result uniformly sampled within the given
  bounds (section 4.2). The argument \<open>u\<close> is the uniform sample of \<open>[0, 1)\<close> behind the
  call.
\<close>

definition getRandomFloat :: "real \<Rightarrow> real \<Rightarrow> real \<Rightarrow> real" where
  "getRandomFloat lo hi u = lo + u * (hi - lo)"

text \<open>
  Modelled from the spec: \<^verbatim>\<open>getRandomInt\<close> of \<^verbatim>\<open>src/util/random\<close> is not among the
  sources. The specification places a delay drawn with \<^verbatim>\<open>getRandomInt(300, 1000)\<close>
  in \<open>[300, 1000)\<close> (section 8): the lower bound plus the sample scaled to the width
  of the range and rounded down.
\<close>

definition getRandomInt :: "int \<Rightarrow> int \<Rightarrow> real \<Rightarrow> int" where
  "getRandomInt lo hi u = lo + \<lfloor>u * real_of_int (hi - lo)\<rfloor>"

text \<open>
  Modelled from the spec: \<^verbatim>\<open>getDirection\<close> of \<^verbatim>\<open>src/util/vector\<close> is not among the
  sources. The specification has the fish head toward or away from the fisherman;
  \<open>getDirection a b\<close> is taken as the unit vector that points from \<open>a\<close> to \<open>b\<close>.
\<close>

definition getDirection :: "Vector3 \<Rightarrow> Vector3 \<Rightarrow> Vector3" where
  "getDirection a b = normalize_vec (subVectors b a)"

subsection \<open>Vector objects, timers and the animation action\<close>

definition read_vector :: "world \<Rightarrow> vector_ref \<Rightarrow> Vector3" where
  "read_vector w r =
     (case r of
        Fish_position \<Rightarrow> position (fish w)
      | Fish_scale \<Rightarrow> scale (fish w)
      | Allocated n \<Rightarrow> allocated w n)"

text \<open>Any mutation of a vector object (\<^verbatim>\<open>set\<close>, \<^verbatim>\<open>copy\<close>, \<^verbatim>\<open>add\<close>, ...) stores new
  coordinates in it.\<close>

definition write_vector :: "vector_ref \<Rightarrow> Vector3 \<Rightarrow> world \<Rightarrow> world" where
  "write_vector r v w =
     (case r of
        Fish_position \<Rightarrow> w\<lparr>fish := (fish w)\<lparr>position := v\<rparr>\<rparr>
      | Fish_scale \<Rightarrow> w\<lparr>fish := (fish w)\<lparr>scale := v\<rparr>\<rparr>
      | Allocated n \<Rightarrow> w\<lparr>allocated := (allocated w)(n := v)\<rparr>)"

text \<open>\<^verbatim>\<open>new Vector3(...)\<close> and \<^verbatim>\<open>clone()\<close> make an object that did not exist before.\<close>

definition new_vector :: "Vector3 \<Rightarrow> world \<Rightarrow> vector_ref \<times> world" where
  "new_vector v w =
     (Allocated (nextVector w),
      w\<lparr>allocated := (allocated w)(nextVector w := v), nextVector := Suc (nextVector w)\<rparr>)"

text \<open>\<^verbatim>\<open>setTimeout\<close> returns a handle that no earlier timer had.\<close>

definition setTimeout :: "timeout_callback \<Rightarrow> int \<Rightarrow> world \<Rightarrow> nat \<times> world" where
  "setTimeout cb d w =
     (nextTimeoutId w,
      w\<lparr>timeouts := timeouts w @ [\<lparr>timeout_id = nextTimeoutId w, callback = cb, delay_ms = d\<rparr>],
        nextTimeoutId := Suc (nextTimeoutId w)\<rparr>)"

text \<open>\<^verbatim>\<open>clearTimeout\<close> of null, or of a timer that is no longer pending, does nothing.\<close>

definition clearTimeout :: "nat option \<Rightarrow> world \<Rightarrow> world" where
  "clearTimeout h w =
     (case h of
        None \<Rightarrow> w
      | Some i \<Rightarrow> w\<lparr>timeouts := filter (\<lambda>t. timeout_id t \<noteq> i) (timeouts w)\<rparr>)"

text \<open>
  The operations of the action that the module calls: \<^verbatim>\<open>reset()\<close> enables it again,
  \<^verbatim>\<open>play()\<close> has the mixer schedule it, \<^verbatim>\<open>stop()\<close> takes it off the mixer and
  resets it.
\<close>

definition action_reset :: "AnimationAction \<Rightarrow> AnimationAction" where
  "action_reset a = a\<lparr>enabled := True\<rparr>"

definition action_play :: "AnimationAction \<Rightarrow> AnimationAction" where
  "action_play a = a\<lparr>scheduled := True\<rparr>"

definition action_stop :: "AnimationAction \<Rightarrow> AnimationAction" where
  "action_stop a = action_reset (a\<lparr>scheduled := False\<rparr>)"

subsection \<open>Flop animation\<close>

definition setFlopPlaybackSpeed :: "real \<Rightarrow> world \<Rightarrow> world" where
  "setFlopPlaybackSpeed s w =
     (let s' = (if s \<le> 0 then 1 / 10 else s)
      in w\<lparr>flopPlaybackSpeed := s'\<rparr>)"

definition flop :: "int \<Rightarrow> world \<Rightarrow> world" where
  "flop flopCount w =
     (let a1 = action_reset (flopAnimationAction w);
          a2 = (action_play a1)\<lparr>repetitions := Some flopCount\<rparr>
      in w\<lparr>flopAnimationAction := a2\<rparr>)"

definition flopRandomly :: "env \<Rightarrow> world \<Rightarrow> world" where
  "flopRandomly e w =
     (if flopTimeoutId w \<noteq> None then w
      else
        let delay = getRandomInt 300 3500 (random_sample e 0);
            speed = getRandomFloat (3 / 10) 3 (random_sample e 1);
            nFlops = getRandomInt 1 10 (random_sample e 2);
            (h, w1) = setTimeout (Flop_timeout speed nFlops) delay w
        in w1\<lparr>flopTimeoutId := Some h\<rparr>)"

definition cancelFlop :: "world \<Rightarrow> world" where
  "cancelFlop w =
     (let w1 = clearTimeout (flopTimeoutId w) w;
          w2 = w1\<lparr>flopTimeoutId := None\<rparr>;
          w3 = w2\<lparr>flopAnimationAction := action_stop (flopAnimationAction w2)\<rparr>
      in w3\<lparr>flopAnimationAction := action_reset (flopAnimationAction w3)\<rparr>)"

text \<open>The listener that \<^verbatim>\<open>setupAnimation\<close> adds for the mixer's \<^verbatim>\<open>finished\<close> event.\<close>

definition on_finished :: "world \<Rightarrow> world" where
  "on_finished w = w\<lparr>flopTimeoutId := None\<rparr>"

text \<open>
  \<^verbatim>\<open>animationMixer.update(dt)\<close>: when the action is scheduled and enabled, time moves
  (\<open>dt \<noteq> 0\<close>) and the mixer finds the repetitions completed, it disables the action and
  dispatches \<^verbatim>\<open>finished\<close>, which runs the listener at once.
\<close>

definition animationMixer_update :: "env \<Rightarrow> real \<Rightarrow> world \<Rightarrow> world" where
  "animationMixer_update e dt w =
     (if scheduled (flopAnimationAction w) \<and> enabled (flopAnimationAction w)
         \<and> dt \<noteq> 0 \<and> mixer_finished e
      then on_finished (w\<lparr>flopAnimationAction := (flopAnimationAction w)\<lparr>enabled := False\<rparr>\<rparr>)
      else w)"

subsection \<open>Transformation\<close>

definition getPosition :: "world \<Rightarrow> vector_ref \<times> world" where
  "getPosition w = new_vector (read_vector w Fish_position) w"

definition setPosition :: "Vector3 \<Rightarrow> world \<Rightarrow> world" where
  "setPosition p w = write_vector Fish_position p w"

definition moveBelowBobber :: "env \<Rightarrow> world \<Rightarrow> world" where
  "moveBelowBobber e w =
     (let b = bobberPosition e
      in write_vector Fish_position
           (Vector3 (vec_x b) (vec_y (read_vector w Fish_position)) (vec_z b)) w)"

definition setRandomScale :: "real \<Rightarrow> real \<Rightarrow> env \<Rightarrow> world \<Rightarrow> world" where
  "setRandomScale lo hi e w =
     (let sc = getRandomFloat lo hi (random_sample e 0)
      in write_vector Fish_scale (Vector3 sc sc sc) w)"

subsection \<open>Swimming\<close>

definition swimSpeed :: real where
  "swimSpeed = 30"

definition cancelChangeSwimDirections :: "world \<Rightarrow> world" where
  "cancelChangeSwimDirections w =
     (let w1 = clearTimeout (swimDirectionChangeTimeoutId w) w
      in w1\<lparr>swimDirectionChangeTimeoutId := None\<rparr>)"

definition setDirectionFrom :: "Vector3 \<Rightarrow> real \<Rightarrow> world \<Rightarrow> world" where
  "setDirectionFrom vec angleOffset w =
     w\<lparr>fish := (fish w)\<lparr>rotation :=
          FromAxisAngle (Vector3 0 1 0) (atan2 (vec_x vec) (vec_z vec) + angleOffset)\<rparr>\<rparr>"

definition setSwimDirection_TowardFisherman :: "env \<Rightarrow> world \<Rightarrow> world" where
  "setSwimDirection_TowardFisherman e w =
     (let halfAngleOffset = degToRad (45 / 2);
          angleOffset = getRandomFloat (- halfAngleOffset) halfAngleOffset (random_sample e 0);
          (p, w1) = getPosition w;
          direction = getDirection (read_vector w1 p) (fishermanPosition e)
      in setDirectionFrom direction angleOffset w1)"

definition setSwimDirection_AwayFisherman :: "env \<Rightarrow> world \<Rightarrow> world" where
  "setSwimDirection_AwayFisherman e w =
     (let halfAngleOffset = degToRad (180 / 2);
          angleOffset = getRandomFloat (- halfAngleOffset) halfAngleOffset (random_sample e 0);
          (p, w1) = getPosition w;
          direction = getDirection (fishermanPosition e) (read_vector w1 p)
      in setDirectionFrom direction angleOffset w1)"

definition changeSwimDirections :: "env \<Rightarrow> world \<Rightarrow> world" where
  "changeSwimDirections e w =
     (if swimDirectionChangeTimeoutId w \<noteq> None then w
      else
        let delay = getRandomInt 300 1000 (random_sample e 0);
            (h, w1) = setTimeout Swim_direction_timeout delay w
        in w1\<lparr>swimDirectionChangeTimeoutId := Some h\<rparr>)"

definition swimForward :: "env \<Rightarrow> world \<Rightarrow> world" where
  "swimForward e w =
     (let v = lib_getWorldDirection e (fish w)
      in write_vector Fish_position
           (lib_addScaledVector e (read_vector w Fish_position) v
              (js_times e swimSpeed (delta e))) w)"

subsection \<open>Receivers of the events\<close>

text \<open>The four handlers that \<^verbatim>\<open>setupReceivers\<close> registers, in the order of the source.\<close>

definition receive_ON_FISH_FIGHT :: "env \<Rightarrow> world \<Rightarrow> world" where
  "receive_ON_FISH_FIGHT e w =
     (let w1 = cancelChangeSwimDirections w;
          w2 = moveBelowBobber e w1;
          w3 = setSwimDirection_AwayFisherman e w2;
          w4 = w3\<lparr>changeSwimDirectionCallback := Away_from_fisherman\<rparr>
      in w4\<lparr>state := State_set SWIMMING (Some Tick_while_SWIMMING) (state w4)\<rparr>)"

definition receive_ON_FISHERMAN_FIGHT :: "env \<Rightarrow> world \<Rightarrow> world" where
  "receive_ON_FISHERMAN_FIGHT e w =
     (let w1 = cancelChangeSwimDirections w;
          w2 = setSwimDirection_TowardFisherman e w1;
          w3 = w2\<lparr>changeSwimDirectionCallback := Toward_fisherman\<rparr>
      in w3\<lparr>state := State_set BEING_REELED (Some Tick_while_BEING_REELED) (state w3)\<rparr>)"

definition receive_ON_FISH_CAUGHT :: "env \<Rightarrow> world \<Rightarrow> world" where
  "receive_ON_FISH_CAUGHT e w =
     (let w1 = cancelChangeSwimDirections w;
          w2 = w1\<lparr>fish := (fish w1)\<lparr>rotation := FromEuler (degToRad (- 90)) 0 0\<rparr>\<rparr>
      in w2\<lparr>state := State_set FLOPPING (Some Tick_while_FLOPPING) (state w2)\<rparr>)"

definition receive_RESET :: "env \<Rightarrow> world \<Rightarrow> world" where
  "receive_RESET e w =
     (let w1 = cancelFlop w;
          w2 = setRandomScale 2 5 e w1;
          w3 = setPosition (Vector3 0 2 50) w2;
          w4 = w3\<lparr>fish := (fish w3)\<lparr>rotation :=
                  LookAt (position (fish w3)) (fishermanPosition e)\<rparr>\<rparr>
      in w4\<lparr>state := State_set IDLE None (state w4)\<rparr>)"

fun receiver :: "event \<Rightarrow> env \<Rightarrow> world \<Rightarrow> world" where
  "receiver ON_FISH_FIGHT = receive_ON_FISH_FIGHT"
| "receiver ON_FISHERMAN_FIGHT = receive_ON_FISHERMAN_FIGHT"
| "receiver ON_FISH_CAUGHT = receive_ON_FISH_CAUGHT"
| "receiver RESET = receive_RESET"

text \<open>
  Modelled from the spec: \<^verbatim>\<open>transmit\<close> of \<^verbatim>\<open>src/events/event_manager\<close> is not among
  the sources. Section 4.1 of the specification: publishing an event invokes the
  handlers registered for it, synchronously, before control returns to the publisher.
  The world of this theory is the fish module alone, so the handler that runs is the
  fish's own; the event is also recorded in \<open>transmitted\<close>.
\<close>

definition transmit :: "event \<Rightarrow> env \<Rightarrow> world \<Rightarrow> world" where
  "transmit ev e w = receiver ev e (w\<lparr>transmitted := transmitted w @ [ev]\<rparr>)"

subsection \<open>Per-frame behaviour\<close>

definition checkDistance :: "env \<Rightarrow> world \<Rightarrow> world" where
  "checkDistance e w =
     (let catchDistance = 30;
          (p, w1) = getPosition w;
          distance = lib_distanceTo e (read_vector w1 p) (fishermanPosition e)
      in if distance < catchDistance then transmit ON_FISH_CAUGHT e w1 else w1)"

definition while_SWIMMING :: "env \<Rightarrow> world \<Rightarrow> world" where
  "while_SWIMMING e w =
     (let w1 = (if swimDirectionChangeTimeoutId w = None then changeSwimDirections e w else w)
      in swimForward e w1)"

definition while_BEING_REELED :: "env \<Rightarrow> world \<Rightarrow> world" where
  "while_BEING_REELED e w =
     (let w1 = (if swimDirectionChangeTimeoutId w = None then changeSwimDirections e w else w);
          w2 = swimForward e w1
      in checkDistance e w2)"

definition while_FLOPPING :: "env \<Rightarrow> world \<Rightarrow> world" where
  "while_FLOPPING e w =
     (let w1 = (if flopTimeoutId w = None then flopRandomly e w else w)
      in animationMixer_update e (delta e * flopPlaybackSpeed w1) w1)"

fun invoke_tick :: "tick_callback \<Rightarrow> env \<Rightarrow> world \<Rightarrow> world" where
  "invoke_tick Tick_while_SWIMMING = while_SWIMMING"
| "invoke_tick Tick_while_BEING_REELED = while_BEING_REELED"
| "invoke_tick Tick_while_FLOPPING = while_FLOPPING"

text \<open>\<^verbatim>\<open>update\<close> is \<^verbatim>\<open>state.update()\<close>: the current callback runs, if there is one.\<close>

definition update :: "env \<Rightarrow> world \<Rightarrow> world" where
  "update e w =
     (case onTick (state w) of
        None \<Rightarrow> w
      | Some cb \<Rightarrow> invoke_tick cb e w)"

definition getState :: "world \<Rightarrow> FishStates" where
  "getState w = State_get (state w)"

subsection \<open>Timers that fire\<close>

fun invoke_swim_callback :: "swim_callback \<Rightarrow> env \<Rightarrow> world \<Rightarrow> world" where
  "invoke_swim_callback Do_nothing e w = w"
| "invoke_swim_callback Away_from_fisherman e w = setSwimDirection_AwayFisherman e w"
| "invoke_swim_callback Toward_fisherman e w = setSwimDirection_TowardFisherman e w"

text \<open>The bodies of the two closures given to \<^verbatim>\<open>setTimeout\<close>.\<close>

fun run_timeout_callback :: "timeout_callback \<Rightarrow> env \<Rightarrow> world \<Rightarrow> world" where
  "run_timeout_callback Swim_direction_timeout e w =
     (let w1 = invoke_swim_callback (changeSwimDirectionCallback w) e w
      in w1\<lparr>swimDirectionChangeTimeoutId := None\<rparr>)"
| "run_timeout_callback (Flop_timeout speed nFlops) e w =
     (let w1 = setFlopPlaybackSpeed speed w
      in flop nFlops w1)"

text \<open>
  The platform fires a pending timer: it leaves the pending list and its callback runs.
  Firing a handle that is not pending does nothing.
\<close>

definition fire_timeout :: "nat \<Rightarrow> env \<Rightarrow> world \<Rightarrow> world" where
  "fire_timeout i e w =
     (case find (\<lambda>t. timeout_id t = i) (timeouts w) of
        None \<Rightarrow> w
      | Some t \<Rightarrow>
          run_timeout_callback (callback t) e
            (w\<lparr>timeouts := filter (\<lambda>t. timeout_id t \<noteq> i) (timeouts w)\<rparr>))"

subsection \<open>Runs of the module\<close>

text \<open>
  What can happen to the module after setup: an event is transmitted to it, the driver
  calls \<^verbatim>\<open>updateFish\<close>, or a pending timer fires.
\<close>

datatype step = Receive event | Update | Fire nat

fun do_step :: "step \<Rightarrow> env \<Rightarrow> world \<Rightarrow> world" where
  "do_step (Receive ev) e w = receiver ev e w"
| "do_step Update e w = update e w"
| "do_step (Fire i) e w = fire_timeout i e w"

fun run_steps :: "(step \<times> env) list \<Rightarrow> world \<Rightarrow> world" where
  "run_steps [] w = w"
| "run_steps ((s, e) # rest) w = run_steps rest (do_step s e w)"

text \<open>The pending timer with a given handle, if there is one.\<close>

definition pending_timeout :: "nat \<Rightarrow> world \<Rightarrow> timeout option" where
  "pending_timeout i w = find (\<lambda>t. timeout_id t = i) (timeouts w)"

text \<open>Pending timers by kind.\<close>

definition is_swim_timeout :: "timeout \<Rightarrow> bool" where
  "is_swim_timeout t =
     (case callback t of Swim_direction_timeout \<Rightarrow> True | Flop_timeout s n \<Rightarrow> False)"

definition is_flop_timeout :: "timeout \<Rightarrow> bool" where
  "is_flop_timeout t =
     (case callback t of Swim_direction_timeout \<Rightarrow> False | Flop_timeout s n \<Rightarrow> True)"

definition pending_swim_timeouts :: "world \<Rightarrow> timeout list" where
  "pending_swim_timeouts w = filter is_swim_timeout (timeouts w)"

definition pending_flop_timeouts :: "world \<Rightarrow> timeout list" where
  "pending_flop_timeouts w = filter is_flop_timeout (timeouts w)"

text \<open>
  The invariant of the module's timers. The pending timers have distinct handles, all
  below the next handle to be given out. A pending timer of either kind is the one
  whose handle is stored in the variable of that kind; a stored direction-change handle
  is that of a pending timer; the stored flop handle is below the next handle and is not
  the handle of a pending direction-change timer; and while the flop action is running
  (scheduled and enabled) the flop handle is still stored although its timer has fired.
\<close>

definition timers_ok :: "world \<Rightarrow> bool" where
  "timers_ok w \<longleftrightarrow>
     distinct (map timeout_id (timeouts w)) \<and>
     (\<forall>t \<in> set (timeouts w). timeout_id t < nextTimeoutId w) \<and>
     (\<forall>t \<in> set (timeouts w).
        is_swim_timeout t \<longrightarrow> swimDirectionChangeTimeoutId w = Some (timeout_id t)) \<and>
     (\<forall>t \<in> set (timeouts w).
        is_flop_timeout t \<longrightarrow> flopTimeoutId w = Some (timeout_id t)) \<and>
     (swimDirectionChangeTimeoutId w \<noteq> None \<longrightarrow> pending_swim_timeouts w \<noteq> []) \<and>
     (\<forall>h. flopTimeoutId w = Some h \<longrightarrow>
        h < nextTimeoutId w \<and> (\<forall>t \<in> set (timeouts w). is_swim_timeout t \<longrightarrow> timeout_id t \<noteq> h)) \<and>
     (scheduled (flopAnimationAction w) \<and> enabled (flopAnimationAction w) \<longrightarrow>
        flopTimeoutId w \<noteq> None \<and> pending_flop_timeouts w = [])"

text \<open>
  The part of the world that the timer invariant reads.
\<close>

definition timer_view ::
  "world \<Rightarrow> timeout list \<times> nat \<times> nat option \<times> nat option \<times> AnimationAction" where
  "timer_view w =
     (timeouts w, nextTimeoutId w, swimDirectionChangeTimeoutId w, flopTimeoutId w,
      flopAnimationAction w)"

text \<open>The callback that the module installs together with each state tag.\<close>

fun tick_of :: "FishStates \<Rightarrow> tick_callback option" where
  "tick_of IDLE = None"
| "tick_of SWIMMING = Some Tick_while_SWIMMING"
| "tick_of BEING_REELED = Some Tick_while_BEING_REELED"
| "tick_of FLOPPING = Some Tick_while_FLOPPING"

definition state_ok :: "world \<Rightarrow> bool" where
  "state_ok w \<longleftrightarrow> onTick (state w) = tick_of (currentStateTag (state w))"

section \<open>The driver loop (src/main.ts)\<close>

text \<open>
  The functions that \<^verbatim>\<open>run\<close> calls, one constructor for each call of its body. All
  but \<^verbatim>\<open>updateFish\<close> belong to modules that are not among the sources, so a call is
  modelled by its entry in the trace of calls made so far.
\<close>

datatype call =
    Call_requestAnimationFrame
  | Call_updateTimeDelta
  | Call_updateStats
  | Call_updateOrbitControls
  | Call_updateWater
  | Call_updateBoat
  | Call_updateFisherman
  | Call_updateFishingLine
  | Call_updateBobber
  | Call_updateFish
  | Call_postitionReticle
  | Call_updateUI
  | Call_updateDebug
  | Call_renderer_render

definition invoke :: "call \<Rightarrow> call list \<Rightarrow> call list" where
  "invoke c tr = tr @ [c]"

text \<open>One tick: the body of \<^verbatim>\<open>run\<close>, statement by statement.\<close>

definition run :: "call list \<Rightarrow> call list" where
  "run tr0 =
     (let tr1 = invoke Call_requestAnimationFrame tr0;
          tr2 = invoke Call_updateTimeDelta tr1;
          tr3 = invoke Call_updateStats tr2;
          tr4 = invoke Call_updateOrbitControls tr3;
          tr5 = invoke Call_updateWater tr4;
          tr6 = invoke Call_updateBoat tr5;
          tr7 = invoke Call_updateFisherman tr6;
          tr8 = invoke Call_updateFishingLine tr7;
          tr9 = invoke Call_updateBobber tr8;
          tr10 = invoke Call_updateFish tr9;
          tr11 = invoke Call_postitionReticle tr10;
          tr12 = invoke Call_updateUI tr11;
          tr13 = invoke Call_updateDebug tr12
      in invoke Call_renderer_render tr13)"

text \<open>
  \<^verbatim>\<open>requestAnimationFrame(run)\<close> has the platform call \<^verbatim>\<open>run\<close> again for the next
  frame, after the current call has returned: \<open>n\<close> frames are \<open>n\<close> calls in a row.
\<close>

fun ticks :: "nat \<Rightarrow> call list \<Rightarrow> call list" where
  "ticks 0 tr = tr"
| "ticks (Suc n) tr = ticks n (run tr)"

text \<open>The calls that are the \<^verbatim>\<open>update()\<close> of an actor: water, boat, fisherman, fishing
  line, bobber, fish and UI.\<close>

fun is_actor_update :: "call \<Rightarrow> bool" where
  "is_actor_update Call_updateWater = True"
| "is_actor_update Call_updateBoat = True"
| "is_actor_update Call_updateFisherman = True"
| "is_actor_update Call_updateFishingLine = True"
| "is_actor_update Call_updateBobber = True"
| "is_actor_update Call_updateFish = True"
| "is_actor_update Call_updateUI = True"
| "is_actor_update c = False"

section \<open>Concrete scenarios\<close>

text \<open>
  An environment with the fisherman at \<open>(0, 2, 90)\<close> and the bobber at \<open>(0, 0, 59.7)\<close>,
  frames of 20 ms, every random sample in the middle of its range, and a mixer that does
  not finish. Its arithmetic is the exact one: in the scenarios below the numbers that
  are compared with a threshold (29.7 and 30.3 against 30) are far enough from it for
  the rounding of double precision not to matter.
\<close>

definition e_far :: env where
  "e_far =
     \<lparr>delta = 1 / 50, fishermanPosition = Vector3 0 2 90,
      bobberPosition = Vector3 0 0 (597 / 10),
      random_sample = (\<lambda>_. 1 / 2), mixer_finished = False,
      js_times = (\<lambda>a b. a * b),
      lib_getWorldDirection = getWorldDirection,
      lib_addScaledVector = addScaledVector,
      lib_distanceTo = distanceTo\<rparr>"

text \<open>The same environment with a mixer that reports the repetitions completed.\<close>

definition e_finished :: env where
  "e_finished = e_far\<lparr>mixer_finished := True\<rparr>"

text \<open>The fish after the reset at startup.\<close>

definition w_reset :: world where
  "w_reset = run_steps [(Receive RESET, e_far)] initial_world"

text \<open>The fish that has bitten and swims, its direction-change timer armed by one frame.\<close>

definition w_swimming :: world where
  "w_swimming = run_steps [(Receive ON_FISH_FIGHT, e_far), (Update, e_far)] w_reset"

text \<open>The fish that is being reeled in, 30.3 units from the fisherman.\<close>

definition w_reeled :: world where
  "w_reeled =
     run_steps [(Receive ON_FISH_FIGHT, e_far), (Receive ON_FISHERMAN_FIGHT, e_far)] w_reset"

text \<open>The caught fish, its flop timer armed by one frame.\<close>

definition w_flopping :: world where
  "w_flopping = run_steps [(Receive ON_FISH_CAUGHT, e_far), (Update, e_far)] w_reset"

text \<open>The caught fish after its flop timer has fired: the animation is running.\<close>

definition w_flop_fired :: world where
  "w_flop_fired = run_steps [(Fire 0, e_far)] w_flopping"

section \<open>Properties\<close>

subsection \<open>Evaluation of the scenarios\<close>

lemmas fish_module_defs =
  receive_RESET_def receive_ON_FISH_FIGHT_def receive_ON_FISHERMAN_FIGHT_def
  receive_ON_FISH_CAUGHT_def cancelFlop_def cancelChangeSwimDirections_def clearTimeout_def
  setRandomScale_def setPosition_def write_vector_def read_vector_def moveBelowBobber_def
  setSwimDirection_AwayFisherman_def setSwimDirection_TowardFisherman_def getPosition_def
  new_vector_def setDirectionFrom_def State_set_def State_new_def State_get_def getState_def
  action_stop_def action_reset_def action_play_def update_def while_SWIMMING_def
  while_BEING_REELED_def while_FLOPPING_def changeSwimDirections_def setTimeout_def
  swimForward_def checkDistance_def transmit_def flopRandomly_def animationMixer_update_def
  on_finished_def flop_def setFlopPlaybackSpeed_def fire_timeout_def initial_world_def
  Let_def case_prod_beta

lemma sqrt_less_30: "sqrt x < 30 \<longleftrightarrow> x < 900"
proof -
  have "sqrt 900 = 30" by (rule real_sqrt_unique) simp_all
  then show ?thesis by (metis real_sqrt_less_iff)
qed

lemma distanceTo_less_30: "distanceTo a b < 30 \<longleftrightarrow> distanceToSquared a b < 900"
  by (simp add: distanceTo_def sqrt_less_30)

lemma normalize_z: "0 < c \<Longrightarrow> normalize_vec (Vector3 0 0 c) = Vector3 0 0 1"
  by (simp add: normalize_vec_def vec_length_def lengthSq_def Let_def)



subsection \<open>What the operations leave alone\<close>

lemma getPosition_fish:
  "fish (snd (getPosition w)) = fish w"
  "read_vector (snd (getPosition w)) (fst (getPosition w)) = position (fish w)"
  by (simp_all add: getPosition_def new_vector_def read_vector_def)

lemma fish_cancelChangeSwimDirections [simp]: "fish (cancelChangeSwimDirections w) = fish w"
  by (simp add: cancelChangeSwimDirections_def clearTimeout_def Let_def split: option.splits)

lemma fish_changeSwimDirections [simp]: "fish (changeSwimDirections e w) = fish w"
  by (simp add: changeSwimDirections_def setTimeout_def Let_def)

lemma transmitted_changeSwimDirections [simp]:
  "transmitted (changeSwimDirections e w) = transmitted w"
  by (simp add: changeSwimDirections_def setTimeout_def Let_def)

lemma transmitted_swimForward [simp]: "transmitted (swimForward e w) = transmitted w"
  by (simp add: swimForward_def write_vector_def Let_def)

lemma fish_moveBelowBobber:
  "fish (moveBelowBobber e w) =
     (fish w)\<lparr>position :=
        Vector3 (vec_x (bobberPosition e)) (vec_y (position (fish w))) (vec_z (bobberPosition e))\<rparr>"
  by (simp add: moveBelowBobber_def Let_def write_vector_def read_vector_def)

lemma fish_setSwimDirection_TowardFisherman:
  "fish (setSwimDirection_TowardFisherman e w) =
     (fish w)\<lparr>rotation := FromAxisAngle (Vector3 0 1 0)
        (atan2 (vec_x (getDirection (position (fish w)) (fishermanPosition e)))
               (vec_z (getDirection (position (fish w)) (fishermanPosition e)))
         + getRandomFloat (- degToRad (45 / 2)) (degToRad (45 / 2)) (random_sample e 0))\<rparr>"
  by (simp add: setSwimDirection_TowardFisherman_def Let_def case_prod_beta setDirectionFrom_def
      getPosition_fish)

lemma fish_setSwimDirection_AwayFisherman:
  "fish (setSwimDirection_AwayFisherman e w) =
     (fish w)\<lparr>rotation := FromAxisAngle (Vector3 0 1 0)
        (atan2 (vec_x (getDirection (fishermanPosition e) (position (fish w))))
               (vec_z (getDirection (fishermanPosition e) (position (fish w))))
         + getRandomFloat (- degToRad (180 / 2)) (degToRad (180 / 2)) (random_sample e 0))\<rparr>"
  by (simp add: setSwimDirection_AwayFisherman_def Let_def case_prod_beta setDirectionFrom_def
      getPosition_fish)

lemma fish_receive_ON_FISH_FIGHT:
  "fish (receive_ON_FISH_FIGHT e w) =
     fish (setSwimDirection_AwayFisherman e (moveBelowBobber e (cancelChangeSwimDirections w)))"
  by (simp add: receive_ON_FISH_FIGHT_def Let_def)

lemma fish_receive_ON_FISHERMAN_FIGHT:
  "fish (receive_ON_FISHERMAN_FIGHT e w) =
     fish (setSwimDirection_TowardFisherman e (cancelChangeSwimDirections w))"
  by (simp add: receive_ON_FISHERMAN_FIGHT_def Let_def)

lemma position_swimForward:
  "position (fish (swimForward e w)) =
     lib_addScaledVector e (position (fish w)) (lib_getWorldDirection e (fish w))
       (js_times e swimSpeed (delta e))"
  by (simp add: swimForward_def write_vector_def read_vector_def Let_def)

lemma transmitted_checkDistance:
  "transmitted (checkDistance e w) =
     (if lib_distanceTo e (position (fish w)) (fishermanPosition e) < 30
      then transmitted w @ [ON_FISH_CAUGHT] else transmitted w)"
  by (simp add: checkDistance_def getPosition_def new_vector_def read_vector_def transmit_def
      receive_ON_FISH_CAUGHT_def cancelChangeSwimDirections_def clearTimeout_def Let_def
      split: option.splits)

lemma transmitted_while_BEING_REELED:
  "transmitted (while_BEING_REELED e w) =
     (if lib_distanceTo e
           (lib_addScaledVector e (position (fish w)) (lib_getWorldDirection e (fish w))
              (js_times e swimSpeed (delta e)))
           (fishermanPosition e) < 30
      then transmitted w @ [ON_FISH_CAUGHT] else transmitted w)"
  by (simp add: while_BEING_REELED_def Let_def transmitted_checkDistance position_swimForward)

lemma getRandomFloat_mid: "getRandomFloat (- h) h (1 / 2) = 0"
  by (simp add: getRandomFloat_def)

lemma atan2_0_pos: "0 < a \<Longrightarrow> atan2 0 a = 0"
  by (simp add: atan2_def)

lemma w_reset_eq:
  "w_reset =
     \<lparr>fish = \<lparr>position = Vector3 0 2 50, rotation = LookAt (Vector3 0 2 50) (Vector3 0 2 90),
               scale = Vector3 (7 / 2) (7 / 2) (7 / 2)\<rparr>,
      state = \<lparr>currentStateTag = IDLE, onTick = None\<rparr>,
      flopAnimationAction = \<lparr>scheduled = False, enabled = True, repetitions = None\<rparr>,
      flopPlaybackSpeed = 5 / 2,
      flopTimeoutId = None,
      swimDirectionChangeTimeoutId = None,
      changeSwimDirectionCallback = Do_nothing,
      timeouts = [],
      nextTimeoutId = 0,
      allocated = (\<lambda>_. Vector3 0 0 0),
      nextVector = 0,
      transmitted = []\<rparr>"
  by (simp add: w_reset_def fish_module_defs e_far_def getRandomFloat_def)

lemma w_reeled_fish:
  "fish w_reeled =
     \<lparr>position = Vector3 0 2 (597 / 10), rotation = FromAxisAngle (Vector3 0 1 0) 0,
      scale = Vector3 (7 / 2) (7 / 2) (7 / 2)\<rparr>"
proof -
  have "fish w_reset =
      \<lparr>position = Vector3 0 2 50, rotation = LookAt (Vector3 0 2 50) (Vector3 0 2 90),
       scale = Vector3 (7 / 2) (7 / 2) (7 / 2)\<rparr>"
    by (simp add: w_reset_eq)
  then show ?thesis
    by (simp add: w_reeled_def fish_receive_ON_FISH_FIGHT fish_receive_ON_FISHERMAN_FIGHT
        fish_setSwimDirection_TowardFisherman fish_setSwimDirection_AwayFisherman
        fish_moveBelowBobber e_far_def getRandomFloat_mid getDirection_def subVectors_def
        normalize_z atan2_0_pos)
qed

lemma w_reeled_state:
  "state w_reeled = \<lparr>currentStateTag = BEING_REELED, onTick = Some Tick_while_BEING_REELED\<rparr>"
  "transmitted w_reeled = []"
  "swimDirectionChangeTimeoutId w_reeled = None"
  by (simp_all add: w_reeled_def w_reset_eq fish_module_defs e_far_def)

lemma w_swimming_timers:
  "timeouts w_swimming =
     [\<lparr>timeout_id = 0, callback = Swim_direction_timeout, delay_ms = 650\<rparr>]"
  "swimDirectionChangeTimeoutId w_swimming = Some 0"
  "flopTimeoutId w_swimming = None"
  "state w_swimming = \<lparr>currentStateTag = SWIMMING, onTick = Some Tick_while_SWIMMING\<rparr>"
  "changeSwimDirectionCallback w_swimming = Away_from_fisherman"
  by (simp_all add: w_swimming_def w_reset_eq fish_module_defs e_far_def getRandomInt_def)

lemma w_flopping_timers:
  "timeouts w_flopping =
     [\<lparr>timeout_id = 0, callback = Flop_timeout (33 / 20) 5, delay_ms = 1900\<rparr>]"
  "swimDirectionChangeTimeoutId w_flopping = None"
  "flopTimeoutId w_flopping = Some 0"
  "state w_flopping = \<lparr>currentStateTag = FLOPPING, onTick = Some Tick_while_FLOPPING\<rparr>"
  "flopAnimationAction w_flopping = \<lparr>scheduled = False, enabled = True, repetitions = None\<rparr>"
  by (simp_all add: w_flopping_def w_reset_eq fish_module_defs e_far_def getRandomInt_def
      getRandomFloat_def)

subsection \<open>The timer invariant holds along every run\<close>

lemma timers_ok_view: "timer_view w' = timer_view w \<Longrightarrow> timers_ok w' = timers_ok w"
  by (simp add: timer_view_def timers_ok_def pending_swim_timeouts_def pending_flop_timeouts_def)

lemma view_write_vector [simp]: "timer_view (write_vector r v w) = timer_view w"
  by (simp add: timer_view_def write_vector_def split: vector_ref.splits)

lemma view_getPosition [simp]: "timer_view (snd (getPosition w)) = timer_view w"
  by (simp add: timer_view_def getPosition_def new_vector_def)

lemma view_setDirectionFrom [simp]: "timer_view (setDirectionFrom d a w) = timer_view w"
  by (simp add: timer_view_def setDirectionFrom_def)

lemma view_away [simp]: "timer_view (setSwimDirection_AwayFisherman e w) = timer_view w"
  by (simp add: setSwimDirection_AwayFisherman_def Let_def case_prod_beta)

lemma view_toward [simp]: "timer_view (setSwimDirection_TowardFisherman e w) = timer_view w"
  by (simp add: setSwimDirection_TowardFisherman_def Let_def case_prod_beta)

lemma view_moveBelowBobber [simp]: "timer_view (moveBelowBobber e w) = timer_view w"
  by (simp add: moveBelowBobber_def Let_def)

lemma view_swimForward [simp]: "timer_view (swimForward e w) = timer_view w"
  by (simp add: swimForward_def Let_def)

lemma view_setRandomScale [simp]: "timer_view (setRandomScale a b e w) = timer_view w"
  by (simp add: setRandomScale_def Let_def)

lemma view_setPosition [simp]: "timer_view (setPosition p w) = timer_view w"
  by (simp add: setPosition_def)


lemma flop_iff_not_swim: "is_flop_timeout t \<longleftrightarrow> \<not> is_swim_timeout t"
  by (simp add: is_flop_timeout_def is_swim_timeout_def split: timeout_callback.splits)

lemma is_swim_new [simp]:
  "is_swim_timeout \<lparr>timeout_id = i, callback = Swim_direction_timeout, delay_ms = d\<rparr>"
  "\<not> is_swim_timeout \<lparr>timeout_id = i, callback = Flop_timeout sp n, delay_ms = d\<rparr>"
  by (simp_all add: is_swim_timeout_def)

lemmas timers_ok_defs = timers_ok_def pending_swim_timeouts_def pending_flop_timeouts_def flop_iff_not_swim

lemma timers_ok_cancelChangeSwimDirections: "timers_ok w \<Longrightarrow> timers_ok (cancelChangeSwimDirections w)"
  unfolding timers_ok_defs cancelChangeSwimDirections_def clearTimeout_def
  by (auto simp: Let_def distinct_map_filter filter_empty_conv split: option.splits)

lemma timers_ok_changeSwimDirections: "timers_ok w \<Longrightarrow> timers_ok (changeSwimDirections e w)"
  unfolding timers_ok_defs changeSwimDirections_def setTimeout_def
  by (auto simp: Let_def filter_empty_conv split: option.splits)

lemma timers_ok_flopRandomly: "timers_ok w \<Longrightarrow> timers_ok (flopRandomly e w)"
  unfolding timers_ok_defs flopRandomly_def setTimeout_def
  by (auto simp: Let_def filter_empty_conv split: option.splits)

lemma timers_ok_cancelFlop: "timers_ok w \<Longrightarrow> timers_ok (cancelFlop w)"
  unfolding timers_ok_defs cancelFlop_def clearTimeout_def action_stop_def action_reset_def
  by (auto simp: Let_def distinct_map_filter filter_empty_conv split: option.splits)

lemma timers_ok_animationMixer_update: "timers_ok w \<Longrightarrow> timers_ok (animationMixer_update e dt w)"
  unfolding timers_ok_defs animationMixer_update_def on_finished_def
  by (auto simp: Let_def filter_empty_conv split: option.splits)


lemma view_invoke_swim [simp]: "timer_view (invoke_swim_callback cb e w) = timer_view w"
  by (cases cb) simp_all

lemma find_timeout_Some:
  "find (\<lambda>t. timeout_id t = i) ts = Some t \<Longrightarrow> t \<in> set ts \<and> timeout_id t = i"
  by (auto simp: find_Some_iff)

lemma timers_ok_fire_swim:
  assumes ok: "timers_ok w" and t: "t \<in> set (timeouts w)" and sw: "is_swim_timeout t"
  shows "timers_ok (w\<lparr>timeouts := filter (\<lambda>u. timeout_id u \<noteq> timeout_id t) (timeouts w),
                      swimDirectionChangeTimeoutId := None\<rparr>)"
proof -
  have same: "\<And>u. u \<in> set (timeouts w) \<Longrightarrow> is_swim_timeout u \<Longrightarrow> timeout_id u = timeout_id t"
    using ok t sw unfolding timers_ok_defs by (metis option.inject)
  show ?thesis
    using ok same unfolding timers_ok_defs
    by (auto simp: distinct_map_filter filter_empty_conv)
qed

lemma timers_ok_fire_flop:
  assumes ok: "timers_ok w" and t: "t \<in> set (timeouts w)" and fl: "\<not> is_swim_timeout t"
  shows "timers_ok (flop n (setFlopPlaybackSpeed sp
            (w\<lparr>timeouts := filter (\<lambda>u. timeout_id u \<noteq> timeout_id t) (timeouts w)\<rparr>)))"
proof -
  have same: "\<And>u. u \<in> set (timeouts w) \<Longrightarrow> \<not> is_swim_timeout u \<Longrightarrow> timeout_id u = timeout_id t"
    using ok t fl unfolding timers_ok_defs by (metis option.inject)
  have h: "flopTimeoutId w = Some (timeout_id t)"
    using ok t fl unfolding timers_ok_defs by blast
  show ?thesis
    using ok same h unfolding timers_ok_defs flop_def setFlopPlaybackSpeed_def action_reset_def action_play_def
    by (auto simp: Let_def distinct_map_filter filter_empty_conv)
qed

lemma timers_ok_fire_timeout: "timers_ok w \<Longrightarrow> timers_ok (fire_timeout i e w)"
proof (cases "find (\<lambda>t. timeout_id t = i) (timeouts w)")
  case None
  assume "timers_ok w"
  with None show ?thesis by (simp add: fire_timeout_def)
next
  case (Some t)
  assume ok: "timers_ok w"
  from Some have t: "t \<in> set (timeouts w)" "timeout_id t = i"
    using find_timeout_Some by fastforce+
  let ?w = "w\<lparr>timeouts := filter (\<lambda>t. timeout_id t \<noteq> i) (timeouts w)\<rparr>"
  show ?thesis
  proof (cases "callback t")
    case Swim_direction_timeout
    then have sw: "is_swim_timeout t" by (simp add: is_swim_timeout_def)
    let ?w2 = "(invoke_swim_callback (changeSwimDirectionCallback ?w) e ?w)\<lparr>swimDirectionChangeTimeoutId := None\<rparr>"
    have "timers_ok (?w\<lparr>swimDirectionChangeTimeoutId := None\<rparr>)"
      using timers_ok_fire_swim [OF ok t(1) sw] t(2) by simp
    moreover have "timer_view ?w2 = timer_view (?w\<lparr>swimDirectionChangeTimeoutId := None\<rparr>)"
      using view_invoke_swim [of "changeSwimDirectionCallback ?w" e ?w]
      by (simp add: timer_view_def)
    ultimately have "timers_ok ?w2" using timers_ok_view by blast
    then show ?thesis using Some Swim_direction_timeout
      by (simp add: fire_timeout_def Let_def)
  next
    case (Flop_timeout sp n)
    then have fl: "\<not> is_swim_timeout t" by (simp add: is_swim_timeout_def)
    have "timers_ok (flop n (setFlopPlaybackSpeed sp ?w))"
      using timers_ok_fire_flop [OF ok t(1) fl] t(2) by simp
    then show ?thesis using Some Flop_timeout
      by (simp add: fire_timeout_def Let_def)
  qed
qed

lemma timers_ok_state_update [simp]: "timers_ok (w\<lparr>state := st\<rparr>) = timers_ok w"
  by (rule timers_ok_view) (simp add: timer_view_def)

lemma timers_ok_callback_update [simp]: "timers_ok (w\<lparr>changeSwimDirectionCallback := c\<rparr>) = timers_ok w"
  by (rule timers_ok_view) (simp add: timer_view_def)

lemma timers_ok_fish_update [simp]: "timers_ok (w\<lparr>fish := f\<rparr>) = timers_ok w"
  by (rule timers_ok_view) (simp add: timer_view_def)

lemma timers_ok_transmitted_update [simp]: "timers_ok (w\<lparr>transmitted := f\<rparr>) = timers_ok w"
  by (rule timers_ok_view) (simp add: timer_view_def)

lemma timers_ok_view_ops [simp]:
  "timers_ok (setSwimDirection_AwayFisherman e w) = timers_ok w"
  "timers_ok (setSwimDirection_TowardFisherman e w) = timers_ok w"
  "timers_ok (moveBelowBobber e w) = timers_ok w"
  "timers_ok (swimForward e w) = timers_ok w"
  "timers_ok (setRandomScale a b e w) = timers_ok w"
  "timers_ok (setPosition p w) = timers_ok w"
  "timers_ok (snd (getPosition w)) = timers_ok w"
  by (rule timers_ok_view, simp)+

lemma timers_ok_receiver: "timers_ok w \<Longrightarrow> timers_ok (receiver ev e w)"
  by (cases ev)
     (simp_all add: receive_RESET_def receive_ON_FISH_FIGHT_def receive_ON_FISHERMAN_FIGHT_def
        receive_ON_FISH_CAUGHT_def Let_def timers_ok_cancelChangeSwimDirections timers_ok_cancelFlop)

lemma timers_ok_transmit: "timers_ok w \<Longrightarrow> timers_ok (transmit ev e w)"
  by (simp add: transmit_def timers_ok_receiver)

lemma timers_ok_checkDistance: "timers_ok w \<Longrightarrow> timers_ok (checkDistance e w)"
  by (simp add: checkDistance_def Let_def case_prod_beta timers_ok_transmit)

lemma timers_ok_invoke_tick: "timers_ok w \<Longrightarrow> timers_ok (invoke_tick cb e w)"
  by (cases cb)
     (simp_all add: while_SWIMMING_def while_BEING_REELED_def while_FLOPPING_def Let_def
        timers_ok_changeSwimDirections timers_ok_flopRandomly timers_ok_animationMixer_update timers_ok_checkDistance)

lemma timers_ok_update: "timers_ok w \<Longrightarrow> timers_ok (update e w)"
  unfolding update_def by (simp add: timers_ok_invoke_tick split: option.splits)

lemma timers_ok_do_step: "timers_ok w \<Longrightarrow> timers_ok (do_step s e w)"
  by (cases s) (simp_all add: timers_ok_receiver timers_ok_update timers_ok_fire_timeout)

lemma timers_ok_run_steps: "timers_ok w \<Longrightarrow> timers_ok (run_steps ss w)"
  by (induction ss arbitrary: w) (auto simp: timers_ok_do_step)

lemma timers_ok_initial_world: "timers_ok initial_world"
  by (simp add: timers_ok_defs initial_world_def)

subsection \<open>The callback installed with each state tag\<close>

lemma state_ok_receiver: "state_ok (receiver ev e w)"
  by (cases ev)
     (simp_all add: state_ok_def receive_RESET_def receive_ON_FISH_FIGHT_def
        receive_ON_FISHERMAN_FIGHT_def receive_ON_FISH_CAUGHT_def Let_def State_set_def)

lemma state_getPosition [simp]: "state (snd (getPosition w)) = state w"
  by (simp add: getPosition_def new_vector_def)

lemma state_changeSwimDirections [simp]: "state (changeSwimDirections e w) = state w"
  by (simp add: changeSwimDirections_def setTimeout_def Let_def)

lemma state_swimForward [simp]: "state (swimForward e w) = state w"
  by (simp add: swimForward_def write_vector_def Let_def)

lemma state_flopRandomly [simp]: "state (flopRandomly e w) = state w"
  by (simp add: flopRandomly_def setTimeout_def Let_def)

lemma state_animationMixer_update [simp]: "state (animationMixer_update e dt w) = state w"
  by (simp add: animationMixer_update_def on_finished_def)

lemma state_setSwimDirection [simp]:
  "state (setSwimDirection_AwayFisherman e w) = state w"
  "state (setSwimDirection_TowardFisherman e w) = state w"
  by (simp_all add: setSwimDirection_AwayFisherman_def setSwimDirection_TowardFisherman_def
      Let_def case_prod_beta setDirectionFrom_def)

lemma state_ok_transmit: "state_ok (transmit ev e w)"
  by (simp add: transmit_def state_ok_receiver)

lemma state_ok_checkDistance: "state_ok w \<Longrightarrow> state_ok (checkDistance e w)"
  by (simp add: checkDistance_def Let_def case_prod_beta state_ok_transmit)
     (simp add: state_ok_def)

lemma state_ok_invoke_tick: "state_ok w \<Longrightarrow> state_ok (invoke_tick cb e w)"
proof (cases cb)
  case Tick_while_SWIMMING
  assume "state_ok w"
  with Tick_while_SWIMMING show ?thesis
    by (simp add: while_SWIMMING_def Let_def state_ok_def)
next
  case Tick_while_BEING_REELED
  assume "state_ok w"
  then have "state_ok (swimForward e
      (if swimDirectionChangeTimeoutId w = None then changeSwimDirections e w else w))"
    by (simp add: state_ok_def)
  with Tick_while_BEING_REELED show ?thesis
    by (simp add: while_BEING_REELED_def Let_def state_ok_checkDistance)
next
  case Tick_while_FLOPPING
  assume "state_ok w"
  with Tick_while_FLOPPING show ?thesis
    by (simp add: while_FLOPPING_def Let_def state_ok_def)
qed

lemma state_ok_update: "state_ok w \<Longrightarrow> state_ok (update e w)"
  unfolding update_def by (simp add: state_ok_invoke_tick split: option.splits)

lemma state_fire_timeout [simp]: "state (fire_timeout i e w) = state w"
proof (cases "find (\<lambda>t. timeout_id t = i) (timeouts w)")
  case None
  then show ?thesis by (simp add: fire_timeout_def)
next
  case (Some t)
  show ?thesis
  proof (cases "callback t")
    case Swim_direction_timeout
    with Some show ?thesis
      by (cases "changeSwimDirectionCallback w") (simp_all add: fire_timeout_def Let_def)
  next
    case (Flop_timeout sp n)
    with Some show ?thesis
      by (simp add: fire_timeout_def Let_def flop_def setFlopPlaybackSpeed_def)
  qed
qed

lemma state_ok_do_step: "state_ok w \<Longrightarrow> state_ok (do_step s e w)"
  by (cases s) (simp_all add: state_ok_receiver state_ok_update, simp add: state_ok_def)

lemma state_ok_run_steps: "state_ok w \<Longrightarrow> state_ok (run_steps ss w)"
  by (induction ss arbitrary: w) (auto simp: state_ok_do_step)

lemma state_ok_initial_world: "state_ok initial_world"
  by (simp add: state_ok_def initial_world_def State_new_def)

subsection \<open>The catch while the fish is reeled in\<close>

lemma position_checkDistance: "position (fish (checkDistance e w)) = position (fish w)"
  by (simp add: checkDistance_def Let_def case_prod_beta transmit_def receive_ON_FISH_CAUGHT_def getPosition_fish)

lemma position_while_BEING_REELED:
  "position (fish (while_BEING_REELED e w)) =
     lib_addScaledVector e (position (fish w)) (lib_getWorldDirection e (fish w))
       (js_times e swimSpeed (delta e))"
  by (simp add: while_BEING_REELED_def Let_def position_checkDistance position_swimForward)

lemma e_far_arithmetic:
  "js_times e_far a b = a * b"
  "lib_getWorldDirection e_far = getWorldDirection"
  "lib_addScaledVector e_far = addScaledVector"
  "lib_distanceTo e_far = distanceTo"
  by (simp_all add: e_far_def)

lemma w_reeled_moves:
  "lib_addScaledVector e_far (position (fish w_reeled))
     (lib_getWorldDirection e_far (fish w_reeled)) (js_times e_far swimSpeed (delta e_far)) =
   Vector3 0 2 (603 / 10)"
proof -
  have "getWorldDirection (fish w_reeled) = Vector3 0 0 1"
    by (simp add: w_reeled_fish getWorldDirection_def multiplyScalar_def normalize_z)
  then show ?thesis
    by (simp add: e_far_arithmetic w_reeled_fish addScaledVector_def swimSpeed_def)
       (simp add: e_far_def)
qed

lemma distanceTo_ge_30: "30 \<le> distanceTo a b \<longleftrightarrow> 900 \<le> distanceToSquared a b"
  using distanceTo_less_30 [of a b] by linarith

lemma w_reeled_distances:
  "30 \<le> distanceTo (position (fish w_reeled)) (fishermanPosition e_far)"
  "distanceTo (Vector3 0 2 (603 / 10)) (fishermanPosition e_far) < 30"
  by (simp_all add: distanceTo_less_30 distanceTo_ge_30 w_reeled_fish e_far_def
      distanceToSquared_def subVectors_def lengthSq_def)

text \<open>
  Claim C2, as stated, with the distance taken between the positions the frame starts
  with, fails: \<^verbatim>\<open>while_BEING_REELED\<close> moves the fish forward before it measures. The
  fish of \<open>w_reeled\<close> is 30.3 units from the fisherman and heads for him; one frame of
  20 ms takes it to 29.7 units, and the update publishes \<^verbatim>\<open>ON_FISH_CAUGHT\<close>.
\<close>

theorem catch_counterexample:
  "getState w_reeled = BEING_REELED
   \<and> position (fish w_reeled) = Vector3 0 2 (597 / 10)
   \<and> fishermanPosition e_far = Vector3 0 2 90
   \<and> 30 \<le> distanceTo (position (fish w_reeled)) (fishermanPosition e_far)
   \<and> transmitted w_reeled = []
   \<and> transmitted (update e_far w_reeled) = [ON_FISH_CAUGHT]"
proof -
  have f: "fishermanPosition e_far = Vector3 0 2 90" by (simp add: e_far_def)
  have p: "position (fish w_reeled) = Vector3 0 2 (597 / 10)" by (simp add: w_reeled_fish)
  have t: "transmitted (update e_far w_reeled) = [ON_FISH_CAUGHT]"
    using w_reeled_distances(2)
    by (simp add: update_def w_reeled_state transmitted_while_BEING_REELED w_reeled_moves
        e_far_arithmetic(4))
  show ?thesis
    using w_reeled_distances(1) f p t
    by (simp add: getState_def State_get_def w_reeled_state)
qed

text \<open>
  Claim C2, amended. While the fish is in state \<^verbatim>\<open>BEING_REELED\<close>, a per-frame update
  first moves the fish: the position becomes what the library's \<^verbatim>\<open>addScaledVector\<close>
  returns for the old position, the world direction the library reports and the product
  \<^verbatim>\<open>swimSpeed * delta\<close>. It then measures: if the number that the library's
  \<^verbatim>\<open>distanceTo\<close> returns for the position so reached and the fisherman position is
  strictly less than 30, the update publishes a single \<^verbatim>\<open>ON_FISH_CAUGHT\<close> event; if it
  is greater than or equal to 30, it publishes none. The statement holds whatever the
  rounding of the platform's and the library's arithmetic is.
\<close>

theorem update_BEING_REELED_catch:
  assumes "getState w = BEING_REELED" and "state_ok w"
  shows "position (fish (update e w)) =
           lib_addScaledVector e (position (fish w)) (lib_getWorldDirection e (fish w))
             (js_times e swimSpeed (delta e))
       \<and> (lib_distanceTo e (position (fish (update e w))) (fishermanPosition e) < 30
            \<longrightarrow> transmitted (update e w) = transmitted w @ [ON_FISH_CAUGHT])
       \<and> (30 \<le> lib_distanceTo e (position (fish (update e w))) (fishermanPosition e)
            \<longrightarrow> transmitted (update e w) = transmitted w)"
proof -
  have cb: "onTick (state w) = Some Tick_while_BEING_REELED"
    using assms by (simp add: state_ok_def getState_def State_get_def)
  then have u: "update e w = while_BEING_REELED e w" by (simp add: update_def)
  show ?thesis
    unfolding u by (simp add: position_while_BEING_REELED transmitted_while_BEING_REELED)
qed

theorem update_BEING_REELED_catch_witness:
  "transmitted (update e_far w_reeled) = transmitted w_reeled @ [ON_FISH_CAUGHT]
   \<and> transmitted (update (e_far\<lparr>delta := 0\<rparr>) w_reeled) = transmitted w_reeled"
proof -
  have s: "getState w_reeled = BEING_REELED" "state_ok w_reeled"
    by (simp_all add: getState_def State_get_def state_ok_def w_reeled_state)
  have p0: "lib_addScaledVector (e_far\<lparr>delta := 0\<rparr>) (position (fish w_reeled))
      (lib_getWorldDirection (e_far\<lparr>delta := 0\<rparr>) (fish w_reeled))
      (js_times (e_far\<lparr>delta := 0\<rparr>) swimSpeed (delta (e_far\<lparr>delta := 0\<rparr>))) =
      position (fish w_reeled)"
    by (simp add: e_far_arithmetic addScaledVector_def)
  have d0: "lib_distanceTo (e_far\<lparr>delta := 0\<rparr>) = distanceTo"
    by (simp add: e_far_arithmetic)
  have f: "fishermanPosition (e_far\<lparr>delta := 0\<rparr>) = fishermanPosition e_far" by simp
  have a: "transmitted (update e_far w_reeled) = transmitted w_reeled @ [ON_FISH_CAUGHT]"
    using update_BEING_REELED_catch [OF s, of e_far] w_reeled_distances(2)
    by (simp add: w_reeled_moves e_far_arithmetic(4))
  have b: "transmitted (update (e_far\<lparr>delta := 0\<rparr>) w_reeled) = transmitted w_reeled"
    using update_BEING_REELED_catch [OF s, of "e_far\<lparr>delta := 0\<rparr>"] w_reeled_distances(1)
    unfolding p0 d0 f by simp
  show ?thesis using a b by simp
qed

subsection \<open>Position of the fish\<close>

text \<open>
  Claim C10. \<^verbatim>\<open>moveBelowBobber\<close> sets the x and z coordinates of the fish position to
  those of the bobber and leaves the y coordinate as it was (rotation and scale are not
  touched); the position of the fish after the whole \<^verbatim>\<open>ON_FISH_FIGHT\<close> handler is
  that same vector.
\<close>

theorem moveBelowBobber_keeps_y:
  "position (fish (moveBelowBobber e w)) =
     Vector3 (vec_x (bobberPosition e)) (vec_y (position (fish w))) (vec_z (bobberPosition e))
   \<and> vec_y (position (fish (moveBelowBobber e w))) = vec_y (position (fish w))
   \<and> rotation (fish (moveBelowBobber e w)) = rotation (fish w)
   \<and> scale (fish (moveBelowBobber e w)) = scale (fish w)
   \<and> position (fish (receive_ON_FISH_FIGHT e w)) =
     Vector3 (vec_x (bobberPosition e)) (vec_y (position (fish w))) (vec_z (bobberPosition e))"
  by (simp add: fish_moveBelowBobber fish_receive_ON_FISH_FIGHT
      fish_setSwimDirection_AwayFisherman)

text \<open>
  Claim C9. \<^verbatim>\<open>getPosition\<close> returns a new vector object that holds the coordinates of
  the fish position: it is not the position object of the fish, the fish is unchanged
  by the call, and whatever is stored afterwards in the returned object, the fish
  (position, rotation, scale) stays as it was. A store through the position object
  itself would change the fish, so the model does tell the two apart.
\<close>

theorem getPosition_returns_copy:
  "(case getPosition w of (r, w1) \<Rightarrow>
      read_vector w1 r = position (fish w) \<and> r \<noteq> Fish_position \<and> fish w1 = fish w \<and>
      (\<forall>v. fish (write_vector r v w1) = fish w \<and> read_vector (write_vector r v w1) r = v))
   \<and> (\<forall>v. position (fish (write_vector Fish_position v w)) = v)"
  by (simp add: getPosition_def new_vector_def read_vector_def write_vector_def)

subsection \<open>Order of the updates in a tick\<close>

lemma run_appends:
  "run tr = tr @ [Call_requestAnimationFrame, Call_updateTimeDelta, Call_updateStats,
     Call_updateOrbitControls, Call_updateWater, Call_updateBoat, Call_updateFisherman,
     Call_updateFishingLine, Call_updateBobber, Call_updateFish, Call_postitionReticle,
     Call_updateUI, Call_updateDebug, Call_renderer_render]"
  by (simp add: run_def invoke_def)

lemma ticks_append: "ticks n tr = tr @ concat (replicate n (run []))"
proof (induction n arbitrary: tr)
  case 0
  show ?case by simp
next
  case (Suc n)
  have "ticks (Suc n) tr = run tr @ concat (replicate n (run []))"
    using Suc.IH [of "run tr"] by simp
  also have "run tr = tr @ run []" by (simp add: run_appends)
  finally show ?case by simp
qed

text \<open>
  Claim C7. In every tick the calls of the actors' updates are made one after the other
  in the order water, boat, fisherman, fishing line, bobber, fish, UI: that is the list
  of actor updates in the calls of one \<^verbatim>\<open>run\<close>, and the calls of \<open>n\<close> ticks are \<open>n\<close>
  copies of the calls of one.
\<close>

theorem run_updates_actors_in_order:
  "filter is_actor_update (run []) =
     [Call_updateWater, Call_updateBoat, Call_updateFisherman, Call_updateFishingLine,
      Call_updateBobber, Call_updateFish, Call_updateUI]
   \<and> ticks n [] = concat (replicate n (run []))
   \<and> filter is_actor_update (ticks n []) =
     concat (replicate n [Call_updateWater, Call_updateBoat, Call_updateFisherman,
       Call_updateFishingLine, Call_updateBobber, Call_updateFish, Call_updateUI])"
proof -
  have a: "filter is_actor_update (run []) =
     [Call_updateWater, Call_updateBoat, Call_updateFisherman, Call_updateFishingLine,
      Call_updateBobber, Call_updateFish, Call_updateUI]"
    by (simp add: run_appends)
  have b: "ticks n [] = concat (replicate n (run []))"
    using ticks_append [of n "[]"] by simp
  have c: "filter is_actor_update (concat (replicate n (run []))) =
     concat (replicate n (filter is_actor_update (run [])))"
    by (induction n) simp_all
  show ?thesis using a b c by simp
qed

subsection \<open>Orientation and reset\<close>

lemma getRandomFloat_range:
  assumes "0 \<le> u" "u < 1" "lo \<le> hi"
  shows "lo \<le> getRandomFloat lo hi u" "getRandomFloat lo hi u \<le> hi"
proof -
  have "0 \<le> u * (hi - lo)" using assms by simp
  then show "lo \<le> getRandomFloat lo hi u" by (simp add: getRandomFloat_def)
  have "u * (hi - lo) \<le> 1 * (hi - lo)" using assms by (intro mult_right_mono) simp_all
  then show "getRandomFloat lo hi u \<le> hi" by (simp add: getRandomFloat_def)
qed

lemma lengthSq_nonneg: "0 \<le> lengthSq v"
  by (simp add: lengthSq_def)

lemma vec_length_normalize:
  assumes "lengthSq v \<noteq> 0"
  shows "vec_length (normalize_vec v) = 1"
proof -
  have pos: "0 < lengthSq v" using assms lengthSq_nonneg [of v] by linarith
  then have l: "vec_length v \<noteq> 0" "0 < vec_length v" by (simp_all add: vec_length_def)
  have sq: "vec_length v * vec_length v = lengthSq v"
    using pos by (simp add: vec_length_def)
  have "lengthSq (normalize_vec v) = lengthSq v / (vec_length v * vec_length v)"
    using l by (simp add: normalize_vec_def Let_def lengthSq_def add_divide_distrib)
  also have "\<dots> = 1" using sq pos by simp
  finally show ?thesis by (simp add: vec_length_def)
qed

lemma normalize_scaled_unit:
  assumes "vec_length n = 1" and "0 < s"
  shows "normalize_vec (multiplyScalar n s) = n"
proof -
  have "lengthSq n = 1" using assms(1) by (simp add: vec_length_def)
  then have "lengthSq (multiplyScalar n s) = s * s"
    by (simp add: lengthSq_def multiplyScalar_def algebra_simps) (metis distrib_left mult.right_neutral)
  then have "vec_length (multiplyScalar n s) = s"
    using assms(2) by (simp add: vec_length_def)
  then show ?thesis using assms(2)
    by (cases n) (simp add: normalize_vec_def Let_def multiplyScalar_def)
qed

lemma zAxis_LookAt:
  assumes "vec_x target \<noteq> vec_x eye \<or> vec_z target \<noteq> vec_z eye"
  shows "zAxis (LookAt eye target) = normalize_vec (subVectors target eye)"
proof -
  let ?d = "subVectors target eye"
  have xz: "vec_x ?d \<noteq> 0 \<or> vec_z ?d \<noteq> 0" using assms by (simp add: subVectors_def)
  have "0 < vec_x ?d * vec_x ?d + vec_z ?d * vec_z ?d"
    using xz by (metis add_pos_nonneg add_nonneg_pos zero_le_square not_real_square_gt_zero)
  then have pos: "0 < lengthSq ?d"
    unfolding lengthSq_def by (smt (verit) zero_le_square)
  then have l: "0 < vec_length ?d" by (simp add: vec_length_def)
  have "vec_x (normalize_vec ?d) \<noteq> 0 \<or> vec_z (normalize_vec ?d) \<noteq> 0"
    using xz l by (simp add: normalize_vec_def Let_def)
  then show ?thesis using pos by (auto simp: Let_def)
qed

lemma receive_RESET_fish:
  "fish (receive_RESET e w) =
     \<lparr>position = Vector3 0 2 50,
      rotation = LookAt (Vector3 0 2 50) (fishermanPosition e),
      scale = Vector3 (getRandomFloat 2 5 (random_sample e 0)) (getRandomFloat 2 5 (random_sample e 0))
                (getRandomFloat 2 5 (random_sample e 0))\<rparr>"
  by (simp add: receive_RESET_def Let_def setPosition_def setRandomScale_def write_vector_def)

lemma receive_RESET_state:
  "state (receive_RESET e w) = \<lparr>currentStateTag = IDLE, onTick = None\<rparr>"
  by (cases "state w") (simp add: receive_RESET_def Let_def State_set_def)

lemma receive_RESET_handles:
  "flopTimeoutId (receive_RESET e w) = None"
  "swimDirectionChangeTimeoutId (receive_RESET e w) = swimDirectionChangeTimeoutId w"
  by (simp_all add: receive_RESET_def Let_def setPosition_def setRandomScale_def write_vector_def
      cancelFlop_def clearTimeout_def split: option.splits)

lemma idle_updates: "onTick (state w) = None \<Longrightarrow> run_steps (map (\<lambda>e. (Update, e)) es) w = w"
  by (induction es) (simp_all add: update_def)

lemma zAxis_about_y: "zAxis (FromAxisAngle (Vector3 0 1 0) a) = Vector3 (sin a) 0 (cos a)"
proof -
  have s: "2 * (cos (a / 2) * sin (a / 2)) = sin a"
    using sin_double [of "a / 2"] by simp
  have c: "1 - 2 * (sin (a / 2) * sin (a / 2)) = cos a"
    using cos_double_sin [of "a / 2"] by (simp add: power2_eq_square)
  show ?thesis by (simp add: Let_def s c)
qed


text \<open>
  Claim C8. The \<^verbatim>\<open>RESET\<close> handler puts the fish at \<open>(0, 2, 50)\<close>, gives all three
  scale components the value just drawn with \<^verbatim>\<open>getRandomFloat(2, 5)\<close>, turns the fish
  with \<^verbatim>\<open>lookAt\<close> from that position to the fisherman position, and sets the state to
  \<^verbatim>\<open>IDLE\<close> with a null callback; an update in that state returns the world as it is,
  so any number of updates leaves position, rotation and scale unchanged. When the
  sample is in \<open>[0, 1)\<close> and the fisherman is not straight above or below \<open>(0, 2, 50)\<close>,
  the world direction of the fish is the unit vector from the fish to the fisherman.
\<close>

theorem RESET_places_idle_fish:
  "position (fish (receive_RESET e w)) = Vector3 0 2 50
   \<and> (let sc = getRandomFloat 2 5 (random_sample e 0)
      in scale (fish (receive_RESET e w)) = Vector3 sc sc sc)
   \<and> rotation (fish (receive_RESET e w)) = LookAt (Vector3 0 2 50) (fishermanPosition e)
   \<and> getState (receive_RESET e w) = IDLE
   \<and> onTick (state (receive_RESET e w)) = None
   \<and> update e' (receive_RESET e w) = receive_RESET e w
   \<and> fish (run_steps (map (\<lambda>e'. (Update, e')) es) (receive_RESET e w)) = fish (receive_RESET e w)
   \<and> (0 \<le> random_sample e 0 \<and> random_sample e 0 < 1
        \<and> (vec_x (fishermanPosition e) \<noteq> 0 \<or> vec_z (fishermanPosition e) \<noteq> 50)
      \<longrightarrow> getWorldDirection (fish (receive_RESET e w)) =
           normalize_vec (subVectors (fishermanPosition e) (Vector3 0 2 50)))"
proof -
  have idle: "onTick (state (receive_RESET e w)) = None" by (simp add: receive_RESET_state)
  have dir: "getWorldDirection (fish (receive_RESET e w)) =
           normalize_vec (subVectors (fishermanPosition e) (Vector3 0 2 50))"
    if u: "0 \<le> random_sample e 0" "random_sample e 0 < 1"
      and f: "vec_x (fishermanPosition e) \<noteq> 0 \<or> vec_z (fishermanPosition e) \<noteq> 50"
  proof -
    let ?d = "subVectors (fishermanPosition e) (Vector3 0 2 50)"
    have z: "zAxis (LookAt (Vector3 0 2 50) (fishermanPosition e)) = normalize_vec ?d"
      using f by (intro zAxis_LookAt) simp
    have "vec_x ?d \<noteq> 0 \<or> vec_z ?d \<noteq> 0" using f by (simp add: subVectors_def)
    then have "0 < vec_x ?d * vec_x ?d + vec_z ?d * vec_z ?d"
      by (metis add_pos_nonneg add_nonneg_pos zero_le_square not_real_square_gt_zero)
    then have "lengthSq ?d \<noteq> 0"
      unfolding lengthSq_def by (smt (verit) zero_le_square)
    then have unit: "vec_length (normalize_vec ?d) = 1" by (rule vec_length_normalize)
    have sc: "0 < getRandomFloat 2 5 (random_sample e 0)"
      using getRandomFloat_range(1) [OF u, of 2 5] by simp
    show ?thesis
      by (simp add: getWorldDirection_def receive_RESET_fish z normalize_scaled_unit [OF unit sc]
          del: zAxis.simps)
  qed
  show ?thesis
    using idle dir idle_updates [OF idle, of es]
    by (simp add: receive_RESET_fish receive_RESET_state getState_def State_get_def update_def Let_def)
qed

theorem RESET_places_idle_fish_witness:
  "position (fish (receive_RESET e_far w_swimming)) = Vector3 0 2 50
   \<and> scale (fish (receive_RESET e_far w_swimming)) = Vector3 (7 / 2) (7 / 2) (7 / 2)
   \<and> getState (receive_RESET e_far w_swimming) = IDLE
   \<and> update e_far (receive_RESET e_far w_swimming) = receive_RESET e_far w_swimming
   \<and> getWorldDirection (fish (receive_RESET e_far w_swimming)) = Vector3 0 0 1"
proof -
  have n: "normalize_vec (subVectors (fishermanPosition e_far) (Vector3 0 2 50)) = Vector3 0 0 1"
    by (simp add: e_far_def subVectors_def normalize_z)
  have h: "0 \<le> random_sample e_far 0 \<and> random_sample e_far 0 < 1
      \<and> (vec_x (fishermanPosition e_far) \<noteq> 0 \<or> vec_z (fishermanPosition e_far) \<noteq> 50)"
    by (simp add: e_far_def)
  have sc: "getRandomFloat 2 5 (random_sample e_far 0) = 7 / 2"
    by (simp add: e_far_def getRandomFloat_def)
  show ?thesis
    using RESET_places_idle_fish [of e_far w_swimming e_far "[]"] h
    unfolding n sc by (simp add: Let_def)
qed

lemma sqrt_sum_pos: "a \<noteq> 0 \<or> b \<noteq> 0 \<Longrightarrow> 0 < sqrt (a * a + b * b)" for a b :: real
  by (metis add_pos_nonneg add_nonneg_pos zero_le_square not_real_square_gt_zero real_sqrt_gt_zero)

lemma arctan_quotient:
  assumes "a \<noteq> 0"
  shows "cos (arctan (b / a)) = \<bar>a\<bar> / sqrt (a * a + b * b)"
    and "sin (arctan (b / a)) = (b / a) * (\<bar>a\<bar> / sqrt (a * a + b * b))"
proof -
  have "1 + (b / a)\<^sup>2 = (a * a + b * b) / (a * a)"
    using assms by (simp add: power2_eq_square field_simps)
  then have "sqrt (1 + (b / a)\<^sup>2) = sqrt (a * a + b * b) / \<bar>a\<bar>"
    by (simp add: real_sqrt_divide)
  then show "cos (arctan (b / a)) = \<bar>a\<bar> / sqrt (a * a + b * b)"
    and "sin (arctan (b / a)) = (b / a) * (\<bar>a\<bar> / sqrt (a * a + b * b))"
    by (simp_all add: cos_arctan sin_arctan)
qed

lemma sin_cos_atan2:
  assumes "a \<noteq> 0 \<or> b \<noteq> 0"
  shows "sin (atan2 b a) = b / sqrt (a * a + b * b)"
    and "cos (atan2 b a) = a / sqrt (a * a + b * b)"
proof -
  consider "0 < a" | "a < 0" | "a = 0" "0 < b" | "a = 0" "b < 0"
    using assms by linarith
  then have "sin (atan2 b a) = b / sqrt (a * a + b * b) \<and> cos (atan2 b a) = a / sqrt (a * a + b * b)"
  proof cases
    case 1
    then show ?thesis
      using arctan_quotient [of a b] by (simp add: atan2_def)
  next
    case 2
    then show ?thesis
      using arctan_quotient [of a b] by (auto simp: atan2_def)
  next
    case 3
    then show ?thesis by (simp add: atan2_def)
  next
    case 4
    then show ?thesis by (simp add: atan2_def)
  qed
  then show "sin (atan2 b a) = b / sqrt (a * a + b * b)"
    and "cos (atan2 b a) = a / sqrt (a * a + b * b)" by simp_all
qed

lemma heading_dot_base:
  assumes "bx \<noteq> 0 \<or> bz \<noteq> 0"
  shows "sin (atan2 bx bz + off) * bx + cos (atan2 bx bz + off) * bz =
           sqrt (bx * bx + bz * bz) * cos off"
proof -
  let ?r = "sqrt (bz * bz + bx * bx)"
  have r: "0 < ?r" using assms sqrt_sum_pos [of bz bx] by blast
  have s: "sin (atan2 bx bz) = bx / ?r" and c: "cos (atan2 bx bz) = bz / ?r"
    using sin_cos_atan2 [of bz bx] assms by blast+
  have rr: "?r * ?r = bz * bz + bx * bx"
    by (metis add_nonneg_nonneg real_sqrt_mult_self abs_of_nonneg zero_le_square)
  have "sin (atan2 bx bz + off) * bx + cos (atan2 bx bz + off) * bz
      = (bx * bx + bz * bz) / ?r * cos off"
    unfolding sin_add cos_add s c by (simp add: field_simps) (simp add: add_divide_distrib)
  also have "(bx * bx + bz * bz) / ?r = ?r"
    using real_div_sqrt [of "bz * bz + bx * bx"] by (simp add: add.commute)
  finally show ?thesis by (simp add: add.commute)
qed

lemma cos_offset_bounds:
  assumes "- h \<le> off" "off \<le> h" "0 \<le> h" "h \<le> pi / 2"
  shows "cos h \<le> cos off"
proof -
  have "cos \<bar>off\<bar> = cos off" by simp
  moreover have "cos h \<le> cos \<bar>off\<bar>"
    using assms by (intro cos_monotone_0_pi_le) (auto simp: abs_le_iff)
  ultimately show ?thesis by simp
qed


text \<open>
  Claim C5. With a sample in \<open>[0, 1)\<close>, \<^verbatim>\<open>setSwimDirection_AwayFisherman\<close> turns the
  fish about the y axis to the angle of the base away-vector plus an offset within
  \<open>\<plusminus>90\<close> degrees, and \<^verbatim>\<open>setSwimDirection_TowardFisherman\<close> to the angle of the base
  toward-vector plus an offset within \<open>\<plusminus>22.5\<close> degrees (\<open>45 / 2\<close>). The local z axis
  of the fish then is \<open>(sin heading, 0, cos heading)\<close>, and its inner product with the
  horizontal part of the base vector is the length of that part times the cosine of the
  offset: the heading is within 90 degrees, respectively 22.5 degrees, of the base
  vector.
\<close>

theorem swim_direction_offset_bounded:
  assumes "0 \<le> random_sample e 0" and "random_sample e 0 < 1"
  shows "(let off = getRandomFloat (- degToRad (180 / 2)) (degToRad (180 / 2)) (random_sample e 0);
              base = getDirection (fishermanPosition e) (position (fish w));
              heading = atan2 (vec_x base) (vec_z base) + off
          in - degToRad 90 \<le> off \<and> off \<le> degToRad 90
             \<and> rotation (fish (setSwimDirection_AwayFisherman e w)) =
                 FromAxisAngle (Vector3 0 1 0) heading
             \<and> zAxis (rotation (fish (setSwimDirection_AwayFisherman e w))) =
                 Vector3 (sin heading) 0 (cos heading)
             \<and> (vec_x base \<noteq> 0 \<or> vec_z base \<noteq> 0 \<longrightarrow>
                  sin heading * vec_x base + cos heading * vec_z base =
                    sqrt (vec_x base * vec_x base + vec_z base * vec_z base) * cos off
                  \<and> 0 \<le> cos off))
       \<and> (let off = getRandomFloat (- degToRad (45 / 2)) (degToRad (45 / 2)) (random_sample e 0);
              base = getDirection (position (fish w)) (fishermanPosition e);
              heading = atan2 (vec_x base) (vec_z base) + off
          in - degToRad (45 / 2) \<le> off \<and> off \<le> degToRad (45 / 2)
             \<and> rotation (fish (setSwimDirection_TowardFisherman e w)) =
                 FromAxisAngle (Vector3 0 1 0) heading
             \<and> zAxis (rotation (fish (setSwimDirection_TowardFisherman e w))) =
                 Vector3 (sin heading) 0 (cos heading)
             \<and> (vec_x base \<noteq> 0 \<or> vec_z base \<noteq> 0 \<longrightarrow>
                  sin heading * vec_x base + cos heading * vec_z base =
                    sqrt (vec_x base * vec_x base + vec_z base * vec_z base) * cos off
                  \<and> cos (degToRad (45 / 2)) \<le> cos off))"
proof -
  have h1: "- degToRad (180 / 2) \<le> degToRad (180 / 2)"
    and h2: "- degToRad (45 / 2) \<le> degToRad (45 / 2)"
    by (simp_all add: degToRad_def)
  have e: "degToRad (180 / 2) = degToRad 90" by simp
  have q: "degToRad 90 = pi / 2" by (simp add: degToRad_def)
  have s: "0 \<le> degToRad (45 / 2)" "degToRad (45 / 2) \<le> pi / 2"
    by (simp_all add: degToRad_def)
  let ?o1 = "getRandomFloat (- degToRad 90) (degToRad 90) (random_sample e 0)"
  let ?o2 = "getRandomFloat (- degToRad (45 / 2)) (degToRad (45 / 2)) (random_sample e 0)"
  have b1: "- degToRad 90 \<le> ?o1" "?o1 \<le> degToRad 90"
    using getRandomFloat_range [OF assms h1] unfolding e by simp_all
  have b2: "- degToRad (45 / 2) \<le> ?o2" "?o2 \<le> degToRad (45 / 2)"
    using getRandomFloat_range [OF assms h2] by simp_all
  have c1: "0 \<le> cos ?o1"
    using cos_offset_bounds [of "pi / 2" ?o1] b1 unfolding q by simp
  have c2: "cos (degToRad (45 / 2)) \<le> cos ?o2"
    using cos_offset_bounds [OF b2 s] .
  show ?thesis
    using b1 b2 c1 c2 unfolding e
    by (simp add: fish_setSwimDirection_AwayFisherman fish_setSwimDirection_TowardFisherman
        zAxis_about_y heading_dot_base Let_def del: zAxis.simps)
qed

theorem swim_direction_offset_bounded_witness:
  "0 \<le> random_sample e_far 0 \<and> random_sample e_far 0 < 1
   \<and> rotation (fish (setSwimDirection_AwayFisherman e_far w_reset)) =
       FromAxisAngle (Vector3 0 1 0) (atan2 0 (- 1) + 0)
   \<and> rotation (fish (setSwimDirection_TowardFisherman e_far w_reset)) =
       FromAxisAngle (Vector3 0 1 0) (atan2 0 1 + 0)
   \<and> - degToRad 90 \<le> (0::real) \<and> (0::real) \<le> degToRad 90
   \<and> - degToRad (45 / 2) \<le> (0::real) \<and> (0::real) \<le> degToRad (45 / 2)"
proof -
  have u: "0 \<le> random_sample e_far 0" "random_sample e_far 0 < 1"
    by (simp_all add: e_far_def)
  have r: "random_sample e_far 0 = 1 / 2" by (simp add: e_far_def)
  have p: "position (fish w_reset) = Vector3 0 2 50" by (simp add: w_reset_eq)
  have f: "fishermanPosition e_far = Vector3 0 2 90" by (simp add: e_far_def)
  have d1: "getDirection (Vector3 0 2 90) (Vector3 0 2 50) = Vector3 0 0 (- 1)"
    by (simp add: getDirection_def subVectors_def normalize_vec_def vec_length_def lengthSq_def)
  have d2: "getDirection (Vector3 0 2 50) (Vector3 0 2 90) = Vector3 0 0 1"
    by (simp add: getDirection_def subVectors_def normalize_z)
  show ?thesis
    using swim_direction_offset_bounded [OF u, of w_reset] u
    unfolding r p f d1 d2 getRandomFloat_mid
    by (simp add: Let_def)
qed

subsection \<open>At most one timer of each kind\<close>

lemma timers_ok_reachable: "timers_ok (run_steps steps initial_world)"
  by (simp add: timers_ok_run_steps timers_ok_initial_world)

lemma same_key_short:
  assumes "distinct (map f xs)" and "\<And>x. x \<in> set xs \<Longrightarrow> f x = c"
  shows "length xs \<le> 1"
proof (cases xs)
  case Nil
  then show ?thesis by simp
next
  case (Cons a ys)
  show ?thesis
  proof (cases ys)
    case Nil
    with Cons show ?thesis by simp
  next
    case (Cons b zs)
    with \<open>xs = a # ys\<close> assms have "f a = c" "f b = c" "f a \<noteq> f b" by auto
    then show ?thesis by simp
  qed
qed

lemma at_most_one_swim: "timers_ok w \<Longrightarrow> length (pending_swim_timeouts w) \<le> 1"
proof -
  assume ok: "timers_ok w"
  show ?thesis
  proof (cases "swimDirectionChangeTimeoutId w")
    case None
    with ok have "pending_swim_timeouts w = []"
      unfolding timers_ok_defs by (auto simp: filter_empty_conv)
    then show ?thesis by simp
  next
    case (Some h)
    have d: "distinct (map timeout_id (pending_swim_timeouts w))"
      using ok unfolding timers_ok_defs by (simp add: distinct_map_filter)
    have "\<And>t. t \<in> set (pending_swim_timeouts w) \<Longrightarrow> timeout_id t = h"
      using ok Some unfolding timers_ok_defs by auto
    with d show ?thesis by (rule same_key_short)
  qed
qed

lemma at_most_one_flop: "timers_ok w \<Longrightarrow> length (pending_flop_timeouts w) \<le> 1"
proof -
  assume ok: "timers_ok w"
  show ?thesis
  proof (cases "flopTimeoutId w")
    case None
    with ok have "pending_flop_timeouts w = []"
      unfolding timers_ok_defs by (auto simp: filter_empty_conv)
    then show ?thesis by simp
  next
    case (Some h)
    have d: "distinct (map timeout_id (pending_flop_timeouts w))"
      using ok unfolding timers_ok_defs by (simp add: distinct_map_filter)
    have "\<And>t. t \<in> set (pending_flop_timeouts w) \<Longrightarrow> timeout_id t = h"
      using ok Some unfolding timers_ok_defs by auto
    with d show ?thesis by (rule same_key_short)
  qed
qed

lemma changeSwimDirections_handle: "swimDirectionChangeTimeoutId (changeSwimDirections e w) \<noteq> None"
  by (simp add: changeSwimDirections_def setTimeout_def Let_def)

lemma changeSwimDirections_twice:
  "changeSwimDirections e2 (changeSwimDirections e1 w) = changeSwimDirections e1 w"
  using changeSwimDirections_handle [of e1 w]
  by (simp add: changeSwimDirections_def [of e2])

lemma flopRandomly_handle: "flopTimeoutId (flopRandomly e w) \<noteq> None"
  by (simp add: flopRandomly_def setTimeout_def Let_def)

lemma flopRandomly_twice: "flopRandomly e2 (flopRandomly e1 w) = flopRandomly e1 w"
  using flopRandomly_handle [of e1 w]
  by (simp add: flopRandomly_def [of e2])

lemma exactly_one_swim:
  assumes "timers_ok w"
  shows "length (pending_swim_timeouts (changeSwimDirections e w)) = 1"
proof -
  have ok: "timers_ok (changeSwimDirections e w)"
    using assms by (rule timers_ok_changeSwimDirections)
  then have "pending_swim_timeouts (changeSwimDirections e w) \<noteq> []"
    using changeSwimDirections_handle [of e w] unfolding timers_ok_def by blast
  then show ?thesis using at_most_one_swim [OF ok]
    by (cases "pending_swim_timeouts (changeSwimDirections e w)") simp_all
qed

lemma pending_flop_flopRandomly:
  "pending_flop_timeouts (flopRandomly e w) =
     (if flopTimeoutId w \<noteq> None then pending_flop_timeouts w
      else pending_flop_timeouts w @
        [\<lparr>timeout_id = nextTimeoutId w,
          callback = Flop_timeout (getRandomFloat (3 / 10) 3 (random_sample e 1))
                       (getRandomInt 1 10 (random_sample e 2)),
          delay_ms = getRandomInt 300 3500 (random_sample e 0)\<rparr>])"
  by (simp add: flopRandomly_def setTimeout_def Let_def pending_flop_timeouts_def
      is_flop_timeout_def)

lemma run_steps_append: "run_steps (xs @ ys) w = run_steps ys (run_steps xs w)"
  by (induction xs arbitrary: w) auto

lemma w_flop_fired_timers:
  "timeouts w_flop_fired = []"
  "flopTimeoutId w_flop_fired = Some 0"
  "state w_flop_fired = \<lparr>currentStateTag = FLOPPING, onTick = Some Tick_while_FLOPPING\<rparr>"
  "flopAnimationAction w_flop_fired = \<lparr>scheduled = True, enabled = True, repetitions = Some 5\<rparr>"
  "flopPlaybackSpeed w_flop_fired = 33 / 20"
  by (simp_all add: w_flop_fired_def fire_timeout_def w_flopping_timers Let_def flop_def
      setFlopPlaybackSpeed_def action_reset_def action_play_def)

text \<open>
  Claim C4, as stated, fails for the flop timer. When the flop timer has fired, its
  handle stays in \<^verbatim>\<open>flopTimeoutId\<close> until the animation finishes. In that state
  (\<open>w_flop_fired\<close>, reached from the initial world by a reset, a catch, one frame and the
  firing of timer 0) two calls of \<^verbatim>\<open>flopRandomly\<close> in succession, or two frames in
  succession, leave no pending flop timer, not exactly one.
\<close>

theorem single_flight_counterexample:
  "w_flop_fired =
     run_steps [(Receive RESET, e_far), (Receive ON_FISH_CAUGHT, e_far), (Update, e_far),
                (Fire 0, e_far)] initial_world
   \<and> flopTimeoutId w_flop_fired = Some 0
   \<and> length (pending_flop_timeouts (flopRandomly e_far (flopRandomly e_far w_flop_fired))) = 0
   \<and> length (pending_flop_timeouts (update e_far (update e_far w_flop_fired))) = 0"
proof -
  have a: "w_flop_fired =
     run_steps [(Receive RESET, e_far), (Receive ON_FISH_CAUGHT, e_far), (Update, e_far),
                (Fire 0, e_far)] initial_world"
    by (simp add: w_flop_fired_def w_flopping_def w_reset_def)
  have u: "update e_far w_flop_fired = w_flop_fired"
    by (simp add: update_def while_FLOPPING_def animationMixer_update_def w_flop_fired_timers
        e_far_def)
  have p: "pending_flop_timeouts w_flop_fired = []"
    by (simp add: pending_flop_timeouts_def w_flop_fired_timers)
  have f: "flopRandomly e_far w_flop_fired = w_flop_fired"
    by (simp add: flopRandomly_def w_flop_fired_timers)
  show ?thesis using a by (simp add: u f p w_flop_fired_timers)
qed

text \<open>
  Claim C4, amended. At every point of every run at most one direction-change timer and
  at most one flop timer are pending. Two calls of \<^verbatim>\<open>changeSwimDirections\<close> in
  succession leave exactly one pending direction-change timer. Two calls of
  \<^verbatim>\<open>flopRandomly\<close> in succession leave exactly one pending flop timer when, before
  the first call, the flop handle was null or a flop timer was pending, and none when
  the handle was stored and its timer had already fired. In each case the second call
  changes nothing.
\<close>

theorem single_flight:
  "length (pending_swim_timeouts (run_steps steps initial_world)) \<le> 1
   \<and> length (pending_flop_timeouts (run_steps steps initial_world)) \<le> 1
   \<and> changeSwimDirections e2 (changeSwimDirections e1 (run_steps steps initial_world)) =
       changeSwimDirections e1 (run_steps steps initial_world)
   \<and> length (pending_swim_timeouts
        (changeSwimDirections e2 (changeSwimDirections e1 (run_steps steps initial_world)))) = 1
   \<and> flopRandomly e2 (flopRandomly e1 (run_steps steps initial_world)) =
       flopRandomly e1 (run_steps steps initial_world)
   \<and> length (pending_flop_timeouts
        (flopRandomly e2 (flopRandomly e1 (run_steps steps initial_world)))) \<le> 1
   \<and> (flopTimeoutId (run_steps steps initial_world) = None
        \<or> pending_flop_timeouts (run_steps steps initial_world) \<noteq> []
      \<longrightarrow> length (pending_flop_timeouts
            (flopRandomly e2 (flopRandomly e1 (run_steps steps initial_world)))) = 1)
   \<and> (flopTimeoutId (run_steps steps initial_world) \<noteq> None
        \<and> pending_flop_timeouts (run_steps steps initial_world) = []
      \<longrightarrow> pending_flop_timeouts
            (flopRandomly e2 (flopRandomly e1 (run_steps steps initial_world))) = [])"
proof -
  let ?w = "run_steps steps initial_world"
  have ok: "timers_ok ?w" by (rule timers_ok_reachable)
  have okf: "timers_ok (flopRandomly e1 ?w)" using ok by (rule timers_ok_flopRandomly)
  have one: "length (pending_flop_timeouts (flopRandomly e1 ?w)) = 1"
    if "flopTimeoutId ?w = None \<or> pending_flop_timeouts ?w \<noteq> []"
  proof -
    have "pending_flop_timeouts (flopRandomly e1 ?w) \<noteq> []"
      using that by (auto simp: pending_flop_flopRandomly)
    then show ?thesis using at_most_one_flop [OF okf]
      by (cases "pending_flop_timeouts (flopRandomly e1 ?w)") simp_all
  qed
  have none: "pending_flop_timeouts (flopRandomly e1 ?w) = []"
    if "flopTimeoutId ?w \<noteq> None \<and> pending_flop_timeouts ?w = []"
    using that by (simp add: pending_flop_flopRandomly)
  show ?thesis
    using at_most_one_swim [OF ok] at_most_one_flop [OF ok] at_most_one_flop [OF okf]
      exactly_one_swim [OF ok, of e1] one none
    by (simp add: changeSwimDirections_twice flopRandomly_twice)
qed

theorem single_flight_witness:
  "flopTimeoutId (run_steps [(Receive RESET, e_far)] initial_world) = None
   \<and> length (pending_flop_timeouts (flopRandomly e_far (flopRandomly e_far
        (run_steps [(Receive RESET, e_far)] initial_world)))) = 1
   \<and> length (pending_swim_timeouts (changeSwimDirections e_far (changeSwimDirections e_far
        (run_steps [(Receive RESET, e_far)] initial_world)))) = 1
   \<and> flopTimeoutId (run_steps [(Receive RESET, e_far), (Receive ON_FISH_CAUGHT, e_far),
        (Update, e_far), (Fire 0, e_far)] initial_world) \<noteq> None
   \<and> pending_flop_timeouts (flopRandomly e_far (flopRandomly e_far
        (run_steps [(Receive RESET, e_far), (Receive ON_FISH_CAUGHT, e_far),
        (Update, e_far), (Fire 0, e_far)] initial_world))) = []"
proof -
  have r: "run_steps [(Receive RESET, e_far)] initial_world = w_reset"
    by (simp add: w_reset_def)
  have a: "run_steps [(Receive RESET, e_far), (Receive ON_FISH_CAUGHT, e_far), (Update, e_far),
                (Fire 0, e_far)] initial_world = w_flop_fired"
    by (simp add: w_flop_fired_def w_flopping_def w_reset_def)
  have h: "flopTimeoutId w_reset = None" by (simp add: w_reset_eq)
  have p: "pending_flop_timeouts w_flop_fired = []"
    by (simp add: pending_flop_timeouts_def w_flop_fired_timers)
  show ?thesis
    using single_flight [of "[(Receive RESET, e_far)]" e_far e_far]
      single_flight [of "[(Receive RESET, e_far), (Receive ON_FISH_CAUGHT, e_far),
        (Update, e_far), (Fire 0, e_far)]" e_far e_far]
    unfolding r a by (auto simp: h p w_flop_fired_timers)
qed

subsection \<open>A timer that fires\<close>

lemma timeouts_invoke_swim_callback [simp]:
  "timeouts (invoke_swim_callback cb e w) = timeouts w"
  using view_invoke_swim [of cb e w] by (simp add: timer_view_def)

lemma fire_swim:
  assumes "pending_timeout i w = Some t" and "callback t = Swim_direction_timeout"
  shows "fire_timeout i e w =
           (invoke_swim_callback (changeSwimDirectionCallback w) e
              (w\<lparr>timeouts := filter (\<lambda>u. timeout_id u \<noteq> i) (timeouts w)\<rparr>))
           \<lparr>swimDirectionChangeTimeoutId := None\<rparr>"
    and "swimDirectionChangeTimeoutId (fire_timeout i e w) = None"
    and "pending_timeout i (fire_timeout i e w) = None"
    and "fire_timeout i e' (fire_timeout i e w) = fire_timeout i e w"
proof -
  show eq: "fire_timeout i e w =
           (invoke_swim_callback (changeSwimDirectionCallback w) e
              (w\<lparr>timeouts := filter (\<lambda>u. timeout_id u \<noteq> i) (timeouts w)\<rparr>))
           \<lparr>swimDirectionChangeTimeoutId := None\<rparr>"
    using assms by (simp add: fire_timeout_def pending_timeout_def Let_def)
  show "swimDirectionChangeTimeoutId (fire_timeout i e w) = None"
    unfolding eq by simp
  show p: "pending_timeout i (fire_timeout i e w) = None"
    unfolding eq by (simp add: pending_timeout_def find_None_iff)
  show "fire_timeout i e' (fire_timeout i e w) = fire_timeout i e w"
    using p by (simp add: fire_timeout_def [of i e'] pending_timeout_def)
qed

lemma fire_flop:
  assumes "pending_timeout i w = Some t" and "callback t = Flop_timeout sp n"
  shows "fire_timeout i e w =
           flop n (setFlopPlaybackSpeed sp
              (w\<lparr>timeouts := filter (\<lambda>u. timeout_id u \<noteq> i) (timeouts w)\<rparr>))"
    and "flopTimeoutId (fire_timeout i e w) = flopTimeoutId w"
    and "pending_timeout i (fire_timeout i e w) = None"
    and "fire_timeout i e' (fire_timeout i e w) = fire_timeout i e w"
    and "flopTimeoutId (on_finished (fire_timeout i e w)) = None"
    and "mixer_finished e' \<Longrightarrow> dt \<noteq> 0 \<Longrightarrow>
           flopTimeoutId (animationMixer_update e' dt (fire_timeout i e w)) = None"
proof -
  show eq: "fire_timeout i e w =
           flop n (setFlopPlaybackSpeed sp
              (w\<lparr>timeouts := filter (\<lambda>u. timeout_id u \<noteq> i) (timeouts w)\<rparr>))"
    using assms by (simp add: fire_timeout_def pending_timeout_def Let_def)
  show "flopTimeoutId (fire_timeout i e w) = flopTimeoutId w"
    unfolding eq by (simp add: flop_def setFlopPlaybackSpeed_def Let_def)
  show p: "pending_timeout i (fire_timeout i e w) = None"
    unfolding eq by (simp add: pending_timeout_def find_None_iff flop_def setFlopPlaybackSpeed_def Let_def)
  show "fire_timeout i e' (fire_timeout i e w) = fire_timeout i e w"
    using p by (simp add: fire_timeout_def [of i e'] pending_timeout_def)
  show "flopTimeoutId (on_finished (fire_timeout i e w)) = None"
    by (simp add: on_finished_def)
  show "mixer_finished e' \<Longrightarrow> dt \<noteq> 0 \<Longrightarrow>
           flopTimeoutId (animationMixer_update e' dt (fire_timeout i e w)) = None"
    unfolding eq
    by (simp add: animationMixer_update_def on_finished_def flop_def setFlopPlaybackSpeed_def
        Let_def action_reset_def action_play_def)
qed

lemma flop_handle_of_pending:
  assumes "timers_ok w" and "pending_timeout i w = Some t" and "callback t = Flop_timeout sp n"
  shows "flopTimeoutId w = Some i"
proof -
  have "t \<in> set (timeouts w)" "timeout_id t = i"
    using assms(2) find_timeout_Some unfolding pending_timeout_def by fastforce+
  moreover have "is_flop_timeout t" using assms(3) by (simp add: is_flop_timeout_def)
  ultimately show ?thesis using assms(1) unfolding timers_ok_def by blast
qed

text \<open>
  Claim C3, as stated, fails for the flop timer: its callback sets the playback speed
  and starts the flop, and does not touch \<^verbatim>\<open>flopTimeoutId\<close>. The flop timer of
  \<open>w_flopping\<close> fires, and the handle is still stored.
\<close>

theorem flop_timer_counterexample:
  "pending_timeout 0 w_flopping =
     Some \<lparr>timeout_id = 0, callback = Flop_timeout (33 / 20) 5, delay_ms = 1900\<rparr>
   \<and> flopTimeoutId w_flopping = Some 0
   \<and> flopPlaybackSpeed (fire_timeout 0 e_far w_flopping) = 33 / 20
   \<and> repetitions (flopAnimationAction (fire_timeout 0 e_far w_flopping)) = Some 5
   \<and> flopTimeoutId (fire_timeout 0 e_far w_flopping) \<noteq> None"
  by (simp add: pending_timeout_def fire_timeout_def w_flopping_timers Let_def flop_def
      setFlopPlaybackSpeed_def action_reset_def action_play_def)


text \<open>
  Claim C3, amended. When the direction-change timer fires, it leaves the pending
  timers, \<^verbatim>\<open>changeSwimDirectionCallback\<close> is invoked once, and then
  \<^verbatim>\<open>swimDirectionChangeTimeoutId\<close> is set to null. When the flop timer fires, it leaves
  the pending timers, the playback speed is set and the flop started once, and
  \<^verbatim>\<open>flopTimeoutId\<close> keeps the handle of the timer that fired; the listener of the
  mixer's \<^verbatim>\<open>finished\<close> event is what sets it to null. In both cases the same handle
  cannot fire a second time.
\<close>

theorem timer_fires_once:
  "(pending_timeout i w = Some t \<and> callback t = Swim_direction_timeout \<longrightarrow>
      fire_timeout i e w =
        (invoke_swim_callback (changeSwimDirectionCallback w) e
           (w\<lparr>timeouts := filter (\<lambda>u. timeout_id u \<noteq> i) (timeouts w)\<rparr>))
        \<lparr>swimDirectionChangeTimeoutId := None\<rparr>
      \<and> swimDirectionChangeTimeoutId (fire_timeout i e w) = None
      \<and> pending_timeout i (fire_timeout i e w) = None
      \<and> fire_timeout i e' (fire_timeout i e w) = fire_timeout i e w)
   \<and> (pending_timeout i w = Some t \<and> callback t = Flop_timeout sp n \<longrightarrow>
      fire_timeout i e w =
        flop n (setFlopPlaybackSpeed sp
           (w\<lparr>timeouts := filter (\<lambda>u. timeout_id u \<noteq> i) (timeouts w)\<rparr>))
      \<and> flopTimeoutId (fire_timeout i e w) = flopTimeoutId w
      \<and> (timers_ok w \<longrightarrow> flopTimeoutId (fire_timeout i e w) = Some i)
      \<and> pending_timeout i (fire_timeout i e w) = None
      \<and> fire_timeout i e' (fire_timeout i e w) = fire_timeout i e w
      \<and> flopTimeoutId (on_finished (fire_timeout i e w)) = None
      \<and> (mixer_finished e' \<and> dt \<noteq> 0 \<longrightarrow>
           flopTimeoutId (animationMixer_update e' dt (fire_timeout i e w)) = None))"
proof (intro conjI impI)
  assume a: "pending_timeout i w = Some t \<and> callback t = Swim_direction_timeout"
  then have p: "pending_timeout i w = Some t" and c: "callback t = Swim_direction_timeout"
    by simp_all
  show "fire_timeout i e w =
        (invoke_swim_callback (changeSwimDirectionCallback w) e
           (w\<lparr>timeouts := filter (\<lambda>u. timeout_id u \<noteq> i) (timeouts w)\<rparr>))
        \<lparr>swimDirectionChangeTimeoutId := None\<rparr>"
    by (rule fire_swim(1) [OF p c])
  show "swimDirectionChangeTimeoutId (fire_timeout i e w) = None"
    by (rule fire_swim(2) [OF p c])
  show "pending_timeout i (fire_timeout i e w) = None"
    by (rule fire_swim(3) [OF p c])
  show "fire_timeout i e' (fire_timeout i e w) = fire_timeout i e w"
    by (rule fire_swim(4) [OF p c])
next
  assume a: "pending_timeout i w = Some t \<and> callback t = Flop_timeout sp n"
  then have p: "pending_timeout i w = Some t" and c: "callback t = Flop_timeout sp n"
    by simp_all
  show "fire_timeout i e w =
        flop n (setFlopPlaybackSpeed sp
           (w\<lparr>timeouts := filter (\<lambda>u. timeout_id u \<noteq> i) (timeouts w)\<rparr>))"
    by (rule fire_flop(1) [OF p c])
  show "flopTimeoutId (fire_timeout i e w) = flopTimeoutId w"
    by (rule fire_flop(2) [OF p c])
  show "pending_timeout i (fire_timeout i e w) = None"
    by (rule fire_flop(3) [OF p c])
  show "fire_timeout i e' (fire_timeout i e w) = fire_timeout i e w"
    by (rule fire_flop(4) [OF p c])
  show "flopTimeoutId (on_finished (fire_timeout i e w)) = None"
    by (rule fire_flop(5) [OF p c])
  show "flopTimeoutId (fire_timeout i e w) = Some i" if "timers_ok w"
    using fire_flop(2) [OF p c] flop_handle_of_pending [OF that p c] by simp
  show "flopTimeoutId (animationMixer_update e' dt (fire_timeout i e w)) = None"
    if "mixer_finished e' \<and> dt \<noteq> 0"
    using that fire_flop(6) [OF p c] by simp
qed

theorem timer_fires_once_witness:
  "swimDirectionChangeTimeoutId (fire_timeout 0 e_far w_swimming) = None
   \<and> pending_timeout 0 (fire_timeout 0 e_far w_swimming) = None
   \<and> flopTimeoutId (fire_timeout 0 e_far w_flopping) = Some 0
   \<and> pending_timeout 0 (fire_timeout 0 e_far w_flopping) = None
   \<and> flopTimeoutId (animationMixer_update e_finished 1 (fire_timeout 0 e_far w_flopping)) = None"
proof -
  have s: "pending_timeout 0 w_swimming =
      Some \<lparr>timeout_id = 0, callback = Swim_direction_timeout, delay_ms = 650\<rparr>"
    by (simp add: pending_timeout_def w_swimming_timers)
  have f: "pending_timeout 0 w_flopping =
      Some \<lparr>timeout_id = 0, callback = Flop_timeout (33 / 20) 5, delay_ms = 1900\<rparr>"
    by (simp add: pending_timeout_def w_flopping_timers)
  have ok: "timers_ok w_flopping"
    unfolding w_flopping_def w_reset_def
    by (intro timers_ok_run_steps timers_ok_initial_world)
  have m: "mixer_finished e_finished" by (simp add: e_finished_def)
  have a: "swimDirectionChangeTimeoutId (fire_timeout 0 e_far w_swimming) = None
      \<and> pending_timeout 0 (fire_timeout 0 e_far w_swimming) = None"
    using timer_fires_once [where i = 0 and w = w_swimming and e = e_far
        and t = "\<lparr>timeout_id = 0, callback = Swim_direction_timeout, delay_ms = 650\<rparr>"] s
    by force
  have b: "flopTimeoutId (fire_timeout 0 e_far w_flopping) = Some 0
      \<and> pending_timeout 0 (fire_timeout 0 e_far w_flopping) = None
      \<and> flopTimeoutId (animationMixer_update e_finished 1 (fire_timeout 0 e_far w_flopping)) = None"
    using timer_fires_once [where i = 0 and w = w_flopping and e = e_far and e' = e_finished
        and t = "\<lparr>timeout_id = 0, callback = Flop_timeout (33 / 20) 5, delay_ms = 1900\<rparr>"
        and sp = "33 / 20" and n = 5 and dt = 1] f ok m
    by force
  show ?thesis using a b by blast
qed

subsection \<open>Reset while a direction-change timer is pending\<close>

lemma sibling_handlers_cancel_direction_timer:
  "swimDirectionChangeTimeoutId (receive_ON_FISH_FIGHT e w) = None"
  "swimDirectionChangeTimeoutId (receive_ON_FISHERMAN_FIGHT e w) = None"
  "swimDirectionChangeTimeoutId (receive_ON_FISH_CAUGHT e w) = None"
  by (simp_all add: receive_ON_FISH_FIGHT_def receive_ON_FISHERMAN_FIGHT_def
      receive_ON_FISH_CAUGHT_def cancelChangeSwimDirections_def moveBelowBobber_def
      setSwimDirection_AwayFisherman_def setSwimDirection_TowardFisherman_def
      setDirectionFrom_def getPosition_def new_vector_def write_vector_def Let_def
      case_prod_beta)

lemma w_swimming_fish_rotation:
  "rotation (fish (receive_RESET e_far w_swimming)) = LookAt (Vector3 0 2 50) (Vector3 0 2 90)"
  by (simp add: receive_RESET_fish e_far_def)

text \<open>
  Claim C1 on the code. The fish of \<open>w_swimming\<close> is in state \<^verbatim>\<open>SWIMMING\<close> with its
  direction-change timer pending. \<^verbatim>\<open>RESET\<close> takes it to \<^verbatim>\<open>IDLE\<close> with a null flop
  handle, but the direction-change handle is still stored and its timer still pending:
  the handler calls \<^verbatim>\<open>cancelFlop\<close> and not \<^verbatim>\<open>cancelChangeSwimDirections\<close>, which
  the other three handlers call first. When that timer fires, the idle fish, which
  \<^verbatim>\<open>RESET\<close> had turned toward the fisherman, is turned away from him.
\<close>

theorem RESET_keeps_direction_timer:
  "w_swimming =
     run_steps [(Receive RESET, e_far), (Receive ON_FISH_FIGHT, e_far), (Update, e_far)]
       initial_world
   \<and> getState w_swimming = SWIMMING
   \<and> swimDirectionChangeTimeoutId w_swimming = Some 0
   \<and> getState (receiver RESET e_far w_swimming) = IDLE
   \<and> flopTimeoutId (receiver RESET e_far w_swimming) = None
   \<and> swimDirectionChangeTimeoutId (receiver RESET e_far w_swimming) = Some 0
   \<and> pending_timeout 0 (receiver RESET e_far w_swimming) =
       Some \<lparr>timeout_id = 0, callback = Swim_direction_timeout, delay_ms = 650\<rparr>
   \<and> rotation (fish (receiver RESET e_far w_swimming)) =
       LookAt (Vector3 0 2 50) (Vector3 0 2 90)
   \<and> getState (fire_timeout 0 e_far (receiver RESET e_far w_swimming)) = IDLE
   \<and> rotation (fish (fire_timeout 0 e_far (receiver RESET e_far w_swimming))) =
       FromAxisAngle (Vector3 0 1 0) pi"
proof -
  have a: "w_swimming =
     run_steps [(Receive RESET, e_far), (Receive ON_FISH_FIGHT, e_far), (Update, e_far)]
       initial_world"
    by (simp add: w_swimming_def w_reset_def)
  have t: "timeouts (receive_RESET e_far w_swimming) = timeouts w_swimming"
    by (simp add: receive_RESET_def Let_def setPosition_def setRandomScale_def write_vector_def
        cancelFlop_def clearTimeout_def w_swimming_timers)
  have c: "changeSwimDirectionCallback (receive_RESET e_far w_swimming) = Away_from_fisherman"
    by (simp add: receive_RESET_def Let_def setPosition_def setRandomScale_def write_vector_def
        cancelFlop_def clearTimeout_def w_swimming_timers)
  have p: "pending_timeout 0 (receive_RESET e_far w_swimming) =
       Some \<lparr>timeout_id = 0, callback = Swim_direction_timeout, delay_ms = 650\<rparr>"
    by (simp add: pending_timeout_def t w_swimming_timers)
  have d: "getDirection (Vector3 0 2 90) (Vector3 0 2 50) = Vector3 0 0 (- 1)"
    by (simp add: getDirection_def subVectors_def normalize_vec_def vec_length_def lengthSq_def)
  have at: "atan2 0 (- 1) = pi" by (simp add: atan2_def)
  have fire: "fire_timeout 0 e_far (receive_RESET e_far w_swimming) =
     (setSwimDirection_AwayFisherman e_far
        ((receive_RESET e_far w_swimming)\<lparr>timeouts := []\<rparr>))\<lparr>swimDirectionChangeTimeoutId := None\<rparr>"
    using p by (simp add: fire_timeout_def pending_timeout_def Let_def c t w_swimming_timers)
  have r: "rotation (fish (fire_timeout 0 e_far (receive_RESET e_far w_swimming))) =
       FromAxisAngle (Vector3 0 1 0) pi"
    unfolding fire
    by (simp add: fish_setSwimDirection_AwayFisherman receive_RESET_fish)
       (simp add: e_far_def d at getRandomFloat_mid)
  have st: "getState (fire_timeout 0 e_far (receive_RESET e_far w_swimming)) = IDLE"
    by (simp add: getState_def State_get_def receive_RESET_state)
  show ?thesis
    using a p r st
    by (simp add: getState_def State_get_def w_swimming_timers receive_RESET_state
        receive_RESET_handles w_swimming_fish_rotation)
qed

subsection \<open>Flop playback speed\<close>

text \<open>
  Claim C6. For every requested speed \<open>s\<close>, \<^verbatim>\<open>setFlopPlaybackSpeed\<close> stores 0.1 when
  \<open>s \<le> 0\<close> and \<open>s\<close> itself when \<open>s > 0\<close>; the stored playback speed is never \<open>\<le> 0\<close>.
\<close>

theorem setFlopPlaybackSpeed_clamps:
  "(s \<le> 0 \<longrightarrow> flopPlaybackSpeed (setFlopPlaybackSpeed s w) = 1 / 10)
   \<and> (0 < s \<longrightarrow> flopPlaybackSpeed (setFlopPlaybackSpeed s w) = s)
   \<and> \<not> flopPlaybackSpeed (setFlopPlaybackSpeed s w) \<le> 0"
  by (simp add: setFlopPlaybackSpeed_def)

theorem setFlopPlaybackSpeed_clamps_witness:
  "flopPlaybackSpeed (setFlopPlaybackSpeed (- 1) initial_world) = 1 / 10
   \<and> flopPlaybackSpeed (setFlopPlaybackSpeed 0 initial_world) = 1 / 10
   \<and> flopPlaybackSpeed (setFlopPlaybackSpeed 2 initial_world) = 2"
  using setFlopPlaybackSpeed_clamps [of "- 1" initial_world]
    setFlopPlaybackSpeed_clamps [of 0 initial_world]
    setFlopPlaybackSpeed_clamps [of 2 initial_world]
  by simp

end
